theory Spec2Isabelle
  imports Main "HOL-Library.Multiset"
begin

section \<open>Data model (models.py, schemas.py)\<close>

text \<open>
  \<^verbatim>\<open>class AttendanceStatus(enum.Enum)\<close> of models.py: the two stored status values.
\<close>

datatype AttendanceStatus = Present | Absent

text \<open>
  A calendar date (Python's \<^verbatim>\<open>datetime.date\<close>): year, month and day, compared
  lexicographically as Python compares dates.
\<close>

record date =
  year :: nat
  month :: nat
  day :: nat

definition date_le :: "date \<Rightarrow> date \<Rightarrow> bool" where
  "date_le a b \<longleftrightarrow>
     year a < year b \<or>
     (year a = year b \<and> (month a < month b \<or> (month a = month b \<and> day a \<le> day b)))"

text \<open>The row types of the two tables of models.py.\<close>

record Employee =
  employee_id :: string
  name :: string
  email :: string
  department :: string

record Attendance =
  att_id :: nat
  att_employee_id :: string
  att_date :: date
  att_status :: AttendanceStatus

text \<open>The validated request objects of schemas.py, as crud.py receives them.\<close>

record EmployeeCreate =
  ec_employee_id :: string
  ec_name :: string
  ec_email :: string
  ec_department :: string

record AttendanceCreate =
  ac_employee_id :: string
  ac_date :: date
  ac_status :: string

text \<open>
  The exceptions of crud.py, and \<^verbatim>\<open>IntegrityError\<close>, which the store raises when an
  insert violates the primary key of the employees table.
\<close>

datatype crud_error = DuplicateEmployeeError | EmployeeNotFoundError

datatype store_error = IntegrityError

section \<open>The store behind a database session\<close>

text \<open>
  The committed content of the two tables, in insertion order, and the counter from
  which the \<^verbatim>\<open>autoincrement\<close> primary key of the attendance table is drawn.
\<close>

record store =
  employees :: "Employee list"
  attendance :: "Attendance list"
  next_id :: nat

definition init_db :: store where
  "init_db = \<lparr>employees = [], attendance = [], next_id = 1\<rparr>"

text \<open>\<^verbatim>\<open>db.query(Employee).filter(Employee.employee_id == k).first()\<close>\<close>

definition query_employee :: "store \<Rightarrow> string \<Rightarrow> Employee option" where
  "query_employee db k = find (\<lambda>e. employee_id e = k) (employees db)"

text \<open>
  \<^verbatim>\<open>db.add(row); db.commit()\<close> for an employee row. The column is declared
  \<^verbatim>\<open>primary_key=True, unique=True\<close>, so the store refuses a second row with the same
  key, whatever the session checked before.
\<close>

definition add_employee :: "Employee \<Rightarrow> store \<Rightarrow> store_error + store" where
  "add_employee e db =
     (if employee_id e \<in> set (map employee_id (employees db)) then Inl IntegrityError
      else Inr (db\<lparr>employees := employees db @ [e]\<rparr>))"

text \<open>
  \<^verbatim>\<open>db.add(row); db.commit(); db.refresh(row)\<close> for an attendance row: the store
  assigns the next value of the counter as the row's id.
\<close>

definition add_attendance :: "string \<Rightarrow> date \<Rightarrow> AttendanceStatus \<Rightarrow> store \<Rightarrow> store \<times> Attendance" where
  "add_attendance k d s db =
     (let row = \<lparr>att_id = next_id db, att_employee_id = k, att_date = d, att_status = s\<rparr>
      in (db\<lparr>attendance := attendance db @ [row], next_id := Suc (next_id db)\<rparr>, row))"

text \<open>
  \<^verbatim>\<open>db.delete(employee); db.commit()\<close>. The relationship
  \<^verbatim>\<open>attendance_records\<close> is declared with \<^verbatim>\<open>cascade="all, delete-orphan"\<close> and the
  foreign key with \<^verbatim>\<open>ondelete="CASCADE"\<close>: the commit removes the employee row and
  every attendance row that references it.
\<close>

definition delete_cascade :: "Employee \<Rightarrow> store \<Rightarrow> store" where
  "delete_cascade e db =
     db\<lparr>employees := filter (\<lambda>x. employee_id x \<noteq> employee_id e) (employees db),
        attendance := filter (\<lambda>a. att_employee_id a \<noteq> employee_id e) (attendance db)\<rparr>"

text \<open>
  \<^verbatim>\<open>order_by(Attendance.date.desc())\<close>: rows sorted by date, latest first. Rows
  of one date keep their stored order.
\<close>

fun insert_desc :: "('a \<Rightarrow> date) \<Rightarrow> 'a \<Rightarrow> 'a list \<Rightarrow> 'a list" where
  "insert_desc f x [] = [x]"
| "insert_desc f x (y # ys) =
     (if date_le (f y) (f x) then x # y # ys else y # insert_desc f x ys)"

definition order_by_date_desc :: "('a \<Rightarrow> date) \<Rightarrow> 'a list \<Rightarrow> 'a list" where
  "order_by_date_desc f xs = foldr (insert_desc f) xs []"

section \<open>crud.py\<close>

text \<open>
  \<^verbatim>\<open>create_employee\<close>. Between the query of line 38 and the commit of line 52 other
  sessions may commit; \<open>others\<close> is what they do to the store in that interval. The
  \<^verbatim>\<open>except IntegrityError\<close> branch rolls this session back and raises
  \<^verbatim>\<open>DuplicateEmployeeError\<close>.
\<close>

definition Employee_of :: "EmployeeCreate \<Rightarrow> Employee" where
  \<comment> \<open>the constructor call of lines 43 to 48\<close>
  "Employee_of employee =
     \<lparr>employee_id = ec_employee_id employee, name = ec_name employee,
      email = ec_email employee, department = ec_department employee\<rparr>"

definition create_employee_interleaved ::
  "(store \<Rightarrow> store) \<Rightarrow> store \<Rightarrow> EmployeeCreate \<Rightarrow> store \<times> (crud_error + Employee)" where
  "create_employee_interleaved others db employee =
     (case query_employee db (ec_employee_id employee) of
        Some existing \<Rightarrow> (db, Inl DuplicateEmployeeError)
      | None \<Rightarrow>
          (let db_employee = Employee_of employee;
               db1 = others db
           in case add_employee db_employee db1 of
                Inr db2 \<Rightarrow> (db2, Inr db_employee)
              | Inl IntegrityError \<Rightarrow> (db1, Inl DuplicateEmployeeError)))"

text \<open>\<^verbatim>\<open>create_employee\<close> with no other session at work.\<close>

definition create_employee :: "store \<Rightarrow> EmployeeCreate \<Rightarrow> store \<times> (crud_error + Employee)" where
  "create_employee db employee = create_employee_interleaved (\<lambda>s. s) db employee"

definition get_all_employees :: "store \<Rightarrow> Employee list" where
  "get_all_employees db = employees db"

definition delete_employee :: "store \<Rightarrow> string \<Rightarrow> store \<times> bool" where
  "delete_employee db k =
     (case query_employee db k of
        None \<Rightarrow> (db, False)
      | Some employee \<Rightarrow> (delete_cascade employee db, True))"

definition create_attendance :: "store \<Rightarrow> AttendanceCreate \<Rightarrow> store \<times> (crud_error + Attendance)" where
  "create_attendance db attendance_in =
     (case query_employee db (ac_employee_id attendance_in) of
        None \<Rightarrow> (db, Inl EmployeeNotFoundError)
      | Some employee \<Rightarrow>
          (let status_enum = (if ac_status attendance_in = ''Present'' then Present else Absent);
               (db', row) = add_attendance (ac_employee_id attendance_in) (ac_date attendance_in)
                              status_enum db
           in (db', Inr row)))"

definition get_attendance_by_employee :: "store \<Rightarrow> string \<Rightarrow> crud_error + Attendance list" where
  "get_attendance_by_employee db k =
     (case query_employee db k of
        None \<Rightarrow> Inl EmployeeNotFoundError
      | Some employee \<Rightarrow>
          Inr (order_by_date_desc att_date (filter (\<lambda>a. att_employee_id a = k) (attendance db))))"

section \<open>Regular expressions (the fragment that schemas.py uses)\<close>

text \<open>
  A character class is a list of inclusive ranges, as written between the brackets of
  the pattern. The ranges of the pattern are ASCII, so a character outside ASCII is in
  none of them, whether it is read as a code point or as the bytes of its encoding.
\<close>

datatype regex =
  Empty
  | Eps
  | Class "(char \<times> char) list"
  | Seq regex regex
  | Alt regex regex
  | Star regex

definition in_class :: "(char \<times> char) list \<Rightarrow> char \<Rightarrow> bool" where
  "in_class rs c \<longleftrightarrow>
     list_ex (\<lambda>(lo, hi). (of_char lo :: nat) \<le> of_char c \<and> (of_char c :: nat) \<le> of_char hi) rs"

fun nullable :: "regex \<Rightarrow> bool" where
  "nullable Empty = False"
| "nullable Eps = True"
| "nullable (Class rs) = False"
| "nullable (Seq r s) = (nullable r \<and> nullable s)"
| "nullable (Alt r s) = (nullable r \<or> nullable s)"
| "nullable (Star r) = True"

fun deriv :: "char \<Rightarrow> regex \<Rightarrow> regex" where
  "deriv c Empty = Empty"
| "deriv c Eps = Empty"
| "deriv c (Class rs) = (if in_class rs c then Eps else Empty)"
| "deriv c (Seq r s) =
     (if nullable r then Alt (Seq (deriv c r) s) (deriv c s) else Seq (deriv c r) s)"
| "deriv c (Alt r s) = Alt (deriv c r) (deriv c s)"
| "deriv c (Star r) = Seq (deriv c r) (Star r)"

text \<open>
  \<^verbatim>\<open>re.match(pattern, v)\<close> for a pattern that ends in \<^verbatim>\<open>$\<close>: the whole of \<open>v\<close>
  has to be consumed (the anchor itself is \<open>Dollar\<close> below).
\<close>

fun re_match :: "regex \<Rightarrow> string \<Rightarrow> bool" where
  "re_match r [] = nullable r"
| "re_match r (c # cs) = re_match (deriv c r) cs"

definition Lit :: "char \<Rightarrow> regex" where
  "Lit c = Class [(c, c)]"

definition Plus :: "regex \<Rightarrow> regex" where
  \<comment> \<open>\<^verbatim>\<open>r+\<close>\<close>
  "Plus r = Seq r (Star r)"

definition AtLeast2 :: "regex \<Rightarrow> regex" where
  \<comment> \<open>\<^verbatim>\<open>r{2,}\<close>\<close>
  "AtLeast2 r = Seq r (Seq r (Star r))"

definition Dollar :: regex where
  \<comment> \<open>Python's \<^verbatim>\<open>$\<close> without MULTILINE: the end of the string, or just before a newline
      that ends the string\<close>
  "Dollar = Alt Eps (Lit (CHR 0x0A))"

definition local_class :: "(char \<times> char) list" where
  \<comment> \<open>\<^verbatim>\<open>[a-zA-Z0-9._%+-]\<close>\<close>
  "local_class =
     [(CHR ''a'', CHR ''z''), (CHR ''A'', CHR ''Z''), (CHR ''0'', CHR ''9''),
      (CHR ''.'', CHR ''.''), (CHR ''_'', CHR ''_''), (CHR ''%'', CHR ''%''),
      (CHR ''+'', CHR ''+''), (CHR ''-'', CHR ''-'')]"

definition domain_class :: "(char \<times> char) list" where
  \<comment> \<open>\<^verbatim>\<open>[a-zA-Z0-9.-]\<close>\<close>
  "domain_class =
     [(CHR ''a'', CHR ''z''), (CHR ''A'', CHR ''Z''), (CHR ''0'', CHR ''9''),
      (CHR ''.'', CHR ''.''), (CHR ''-'', CHR ''-'')]"

definition alpha_class :: "(char \<times> char) list" where
  \<comment> \<open>\<^verbatim>\<open>[a-zA-Z]\<close>\<close>
  "alpha_class = [(CHR ''a'', CHR ''z''), (CHR ''A'', CHR ''Z'')]"

definition email_pattern :: regex where
  \<comment> \<open>\<^verbatim>\<open>^[a-zA-Z0-9._%+-]+@[a-zA-Z0-9.-]+\.[a-zA-Z]{2,}$\<close>\<close>
  "email_pattern =
     Seq (Plus (Class local_class))
       (Seq (Lit (CHR ''@''))
         (Seq (Plus (Class domain_class))
           (Seq (Lit (CHR ''.''))
             (Seq (AtLeast2 (Class alpha_class)) Dollar))))"

text \<open>
  The pattern in the words of the specification: a local part of one or more of
  \<^verbatim>\<open>[A-Za-z0-9._%+-]\<close>, an at sign, a domain of one or more of \<^verbatim>\<open>[A-Za-z0-9.-]\<close>, a
  dot, and a top-level segment of two or more letters.
\<close>

definition spec_alpha :: "char \<Rightarrow> bool" where
  "spec_alpha c \<longleftrightarrow>
     c \<in> set ''abcdefghijklmnopqrstuvwxyz'' \<or> c \<in> set ''ABCDEFGHIJKLMNOPQRSTUVWXYZ''"

definition spec_local_char :: "char \<Rightarrow> bool" where
  "spec_local_char c \<longleftrightarrow> spec_alpha c \<or> c \<in> set ''0123456789'' \<or> c \<in> set ''._%+-''"

definition spec_domain_char :: "char \<Rightarrow> bool" where
  "spec_domain_char c \<longleftrightarrow> spec_alpha c \<or> c \<in> set ''0123456789'' \<or> c \<in> set ''.-''"

definition spec_email_pattern :: "string \<Rightarrow> bool" where
  "spec_email_pattern v \<longleftrightarrow>
     (\<exists>l dm t. v = l @ ''@'' @ dm @ ''.'' @ t \<and>
        l \<noteq> [] \<and> (\<forall>c \<in> set l. spec_local_char c) \<and>
        dm \<noteq> [] \<and> (\<forall>c \<in> set dm. spec_domain_char c) \<and>
        2 \<le> length t \<and> (\<forall>c \<in> set t. spec_alpha c))"

section \<open>schemas.py: validation of request bodies\<close>

text \<open>
  The body of a request as the application receives it: each key is present with a
  value or absent (\<open>None\<close>). The date of an attendance request is taken after its text
  was read as a date.
\<close>

record EmployeeRequest =
  rq_employee_id :: "string option"
  rq_name :: "string option"
  rq_email :: "string option"
  rq_department :: "string option"

record AttendanceRequest =
  arq_employee_id :: "string option"
  arq_date :: "date option"
  arq_status :: "string option"

text \<open>
  What a failed field reports. \<open>RequiredFieldMissing\<close> stands for pydantic's
  \<^verbatim>\<open>missing\<close> and \<^verbatim>\<open>string_too_short\<close>, \<open>InvalidEmailFormat\<close> for a failure of the
  email field's type or validator, \<open>InvalidStatusValue\<close> for a failure of the
  \<^verbatim>\<open>Literal\<close> of the status field.
\<close>

datatype validation_error = RequiredFieldMissing | InvalidEmailFormat | InvalidStatusValue

text \<open>\<^verbatim>\<open>str = Field(..., min_length=1)\<close>\<close>

definition Field_min_length_1 :: "string option \<Rightarrow> validation_error + string" where
  "Field_min_length_1 v =
     (case v of
        None \<Rightarrow> Inl RequiredFieldMissing
      | Some s \<Rightarrow> if length s < 1 then Inl RequiredFieldMissing else Inr s)"

definition validate_email_format :: "string \<Rightarrow> validation_error + string" where
  "validate_email_format v =
     (if \<not> re_match email_pattern v then Inl InvalidEmailFormat else Inr v)"

text \<open>
  \<^verbatim>\<open>email: EmailStr = Field(...)\<close> with the validator above. The type
  \<^verbatim>\<open>EmailStr\<close> belongs to pydantic and is not part of this repository: it is the
  parameter \<open>EmailStr\<close>, which refuses a string (\<open>None\<close>) or returns the string that the
  validator then receives.
\<close>

definition email_field :: "(string \<Rightarrow> string option) \<Rightarrow> string option \<Rightarrow> validation_error + string" where
  "email_field EmailStr v =
     (case v of
        None \<Rightarrow> Inl RequiredFieldMissing
      | Some s \<Rightarrow>
          (case EmailStr s of
             None \<Rightarrow> Inl InvalidEmailFormat
           | Some s' \<Rightarrow> validate_email_format s'))"

text \<open>\<^verbatim>\<open>date: date_type = Field(...)\<close>\<close>

definition date_field :: "date option \<Rightarrow> validation_error + date" where
  "date_field v = (case v of None \<Rightarrow> Inl RequiredFieldMissing | Some d \<Rightarrow> Inr d)"

text \<open>\<^verbatim>\<open>status: Literal["Present", "Absent"] = Field(...)\<close>\<close>

definition status_field :: "string option \<Rightarrow> validation_error + string" where
  "status_field v =
     (case v of
        None \<Rightarrow> Inl RequiredFieldMissing
      | Some s \<Rightarrow> if s = ''Present'' \<or> s = ''Absent'' then Inr s else Inl InvalidStatusValue)"

definition field_errors :: "validation_error + 'a \<Rightarrow> validation_error list" where
  "field_errors r = (case r of Inl e \<Rightarrow> [e] | Inr x \<Rightarrow> [])"

text \<open>
  Building the two request models: every field is validated, and the errors of all
  fields are reported together, in the order of the fields.
\<close>

definition EmployeeCreate_validate ::
  "(string \<Rightarrow> string option) \<Rightarrow> EmployeeRequest \<Rightarrow> validation_error list + EmployeeCreate" where
  "EmployeeCreate_validate EmailStr rq =
     (case (Field_min_length_1 (rq_employee_id rq), Field_min_length_1 (rq_name rq),
            email_field EmailStr (rq_email rq), Field_min_length_1 (rq_department rq)) of
        (Inr i, Inr n, Inr e, Inr d) \<Rightarrow>
          Inr \<lparr>ec_employee_id = i, ec_name = n, ec_email = e, ec_department = d\<rparr>
      | (i, n, e, d) \<Rightarrow>
          Inl (field_errors i @ field_errors n @ field_errors e @ field_errors d))"

definition AttendanceCreate_validate ::
  "AttendanceRequest \<Rightarrow> validation_error list + AttendanceCreate" where
  "AttendanceCreate_validate rq =
     (case (Field_min_length_1 (arq_employee_id rq), date_field (arq_date rq),
            status_field (arq_status rq)) of
        (Inr i, Inr d, Inr s) \<Rightarrow> Inr \<lparr>ac_employee_id = i, ac_date = d, ac_status = s\<rparr>
      | (i, d, s) \<Rightarrow> Inl (field_errors i @ field_errors d @ field_errors s))"

section \<open>main.py: the endpoints\<close>

datatype http_error =
  HTTP_422 "validation_error list"
  | HTTP_409_CONFLICT
  | HTTP_404_NOT_FOUND
  | HTTP_500_INTERNAL_SERVER_ERROR

record AttendanceResponse =
  ar_id :: nat
  ar_employee_id :: string
  ar_date :: date
  ar_status :: string

definition status_value :: "AttendanceStatus \<Rightarrow> string" where
  "status_value s = (case s of Present \<Rightarrow> ''Present'' | Absent \<Rightarrow> ''Absent'')"

definition from_orm :: "Attendance \<Rightarrow> AttendanceResponse" where
  "from_orm obj =
     \<lparr>ar_id = att_id obj, ar_employee_id = att_employee_id obj, ar_date = att_date obj,
      ar_status = status_value (att_status obj)\<rparr>"

definition create_employee_endpoint ::
  "(string \<Rightarrow> string option) \<Rightarrow> store \<Rightarrow> EmployeeRequest \<Rightarrow> store \<times> (http_error + Employee)" where
  "create_employee_endpoint EmailStr db rq =
     (case EmployeeCreate_validate EmailStr rq of
        Inl errs \<Rightarrow> (db, Inl (HTTP_422 errs))
      | Inr employee \<Rightarrow>
          (case create_employee db employee of
             (db', Inr db_employee) \<Rightarrow> (db', Inr db_employee)
           | (db', Inl DuplicateEmployeeError) \<Rightarrow> (db', Inl HTTP_409_CONFLICT)
           | (db', Inl EmployeeNotFoundError) \<Rightarrow> (db', Inl HTTP_500_INTERNAL_SERVER_ERROR)))"


definition delete_employee_endpoint :: "store \<Rightarrow> string \<Rightarrow> store \<times> (http_error + unit)" where
  "delete_employee_endpoint db k =
     (case delete_employee db k of
        (db', deleted) \<Rightarrow> if \<not> deleted then (db', Inl HTTP_404_NOT_FOUND) else (db', Inr ()))"

definition create_attendance_endpoint ::
  "store \<Rightarrow> AttendanceRequest \<Rightarrow> store \<times> (http_error + AttendanceResponse)" where
  "create_attendance_endpoint db rq =
     (case AttendanceCreate_validate rq of
        Inl errs \<Rightarrow> (db, Inl (HTTP_422 errs))
      | Inr attendance_in \<Rightarrow>
          (case create_attendance db attendance_in of
             (db', Inr db_attendance) \<Rightarrow> (db', Inr (from_orm db_attendance))
           | (db', Inl EmployeeNotFoundError) \<Rightarrow> (db', Inl HTTP_404_NOT_FOUND)
           | (db', Inl DuplicateEmployeeError) \<Rightarrow> (db', Inl HTTP_500_INTERNAL_SERVER_ERROR)))"

definition get_attendance_endpoint :: "store \<Rightarrow> string \<Rightarrow> http_error + AttendanceResponse list" where
  "get_attendance_endpoint db k =
     (case get_attendance_by_employee db k of
        Inr attendance_records \<Rightarrow> Inr (map from_orm attendance_records)
      | Inl EmployeeNotFoundError \<Rightarrow> Inl HTTP_404_NOT_FOUND
      | Inl DuplicateEmployeeError \<Rightarrow> Inl HTTP_500_INTERNAL_SERVER_ERROR)"

subsection \<open>The dashboard\<close>

text \<open>\<^verbatim>\<open>str(record.date)\<close>: the ISO form, four digits of year, two of month and of day.\<close>

definition digit_char :: "nat \<Rightarrow> char" where
  "digit_char n = char_of (48 + n mod 10)"

definition str_date :: "date \<Rightarrow> string" where
  "str_date d =
     [digit_char (year d div 1000), digit_char (year d div 100), digit_char (year d div 10),
      digit_char (year d), CHR ''-'', digit_char (month d div 10), digit_char (month d),
      CHR ''-'', digit_char (day d div 10), digit_char (day d)]"

record RecentAttendance =
  ra_employee_id :: string
  ra_employee_name :: string
  ra_date :: string
  ra_status :: string

record DashboardStats =
  total_employees :: nat
  total_attendance :: nat
  present_today :: nat
  absent_today :: nat
  departments :: "(string \<times> nat) list"
  recent_attendance :: "RecentAttendance list"

text \<open>
  \<^verbatim>\<open>db.query(Employee.department, func.count(Employee.employee_id)).group_by(Employee.department)\<close>:
  one row per department value, with the number of employees that hold it.
\<close>

definition dept_distribution :: "store \<Rightarrow> (string \<times> nat) list" where
  "dept_distribution db =
     map (\<lambda>dept. (dept, length (filter (\<lambda>e. department e = dept) (employees db))))
       (remdups (map department (employees db)))"

text \<open>
  \<^verbatim>\<open>db.query(Attendance).join(Employee).order_by(Attendance.date.desc()).limit(5).all()\<close>:
  the inner join pairs an attendance row with each employee row its foreign key names;
  the query returns the attendance rows.
\<close>

definition join_Employee :: "store \<Rightarrow> (Attendance \<times> Employee) list" where
  "join_Employee db =
     concat (map (\<lambda>a. map (\<lambda>e. (a, e))
                         (filter (\<lambda>e. employee_id e = att_employee_id a) (employees db)))
                 (attendance db))"

definition recent_attendance_query :: "store \<Rightarrow> Attendance list" where
  "recent_attendance_query db =
     map fst (take 5 (order_by_date_desc (\<lambda>p. att_date (fst p)) (join_Employee db)))"

text \<open>
  One entry of the list \<^verbatim>\<open>recent\<close>. \<^verbatim>\<open>record.employee\<close> loads the employee row by
  the record's foreign key; reading \<^verbatim>\<open>.name\<close> of a missing one raises.
\<close>

definition recent_entry :: "store \<Rightarrow> Attendance \<Rightarrow> RecentAttendance option" where
  "recent_entry db record =
     (case query_employee db (att_employee_id record) of
        None \<Rightarrow> None
      | Some employee \<Rightarrow>
          Some \<lparr>ra_employee_id = att_employee_id record, ra_employee_name = name employee,
                ra_date = str_date (att_date record), ra_status = status_value (att_status record)\<rparr>)"

fun recent_entries :: "store \<Rightarrow> Attendance list \<Rightarrow> RecentAttendance list option" where
  "recent_entries db [] = Some []"
| "recent_entries db (record # records) =
     (case recent_entry db record of
        None \<Rightarrow> None
      | Some entry \<Rightarrow>
          (case recent_entries db records of None \<Rightarrow> None | Some entries \<Rightarrow> Some (entry # entries)))"

text \<open>\<^verbatim>\<open>get_dashboard_stats\<close>; \<open>today\<close> is the value of \<^verbatim>\<open>date.today()\<close>.\<close>

definition get_dashboard_stats :: "date \<Rightarrow> store \<Rightarrow> http_error + DashboardStats" where
  "get_dashboard_stats today db =
     (let total_employees = length (employees db);
          total_attendance = length (attendance db);
          today_present =
            length (filter (\<lambda>a. att_date a = today \<and> att_status a = Present) (attendance db));
          today_absent =
            length (filter (\<lambda>a. att_date a = today \<and> att_status a = Absent) (attendance db));
          departments = dept_distribution db
      in case recent_entries db (recent_attendance_query db) of
           None \<Rightarrow> Inl HTTP_500_INTERNAL_SERVER_ERROR
         | Some recent \<Rightarrow>
             Inr \<lparr>total_employees = total_employees, total_attendance = total_attendance,
                  present_today = today_present, absent_today = today_absent,
                  departments = departments, recent_attendance = recent\<rparr>)"

section \<open>Integrity of the store\<close>

definition employee_ids_unique :: "store \<Rightarrow> bool" where
  "employee_ids_unique db \<longleftrightarrow> distinct (map employee_id (employees db))"

definition referential_integrity :: "store \<Rightarrow> bool" where
  "referential_integrity db \<longleftrightarrow>
     (\<forall>a \<in> set (attendance db). att_employee_id a \<in> set (map employee_id (employees db)))"

definition attendance_ids_fresh :: "store \<Rightarrow> bool" where
  "attendance_ids_fresh db \<longleftrightarrow>
     distinct (map att_id (attendance db)) \<and> (\<forall>a \<in> set (attendance db). att_id a < next_id db)"

text \<open>
  The stores that the operations of crud.py produce from the empty tables that
  \<^verbatim>\<open>init_db\<close> creates.
\<close>

inductive reachable :: "store \<Rightarrow> bool" where
  reachable_init: "reachable init_db"
| reachable_create_employee:
    "reachable db \<Longrightarrow> reachable (fst (create_employee db employee))"
| reachable_delete_employee:
    "reachable db \<Longrightarrow> reachable (fst (delete_employee db k))"
| reachable_create_attendance:
    "reachable db \<Longrightarrow> reachable (fst (create_attendance db attendance_in))"

section \<open>Sample data\<close>

definition example_store :: store where
  "example_store =
     \<lparr>employees =
        [\<lparr>employee_id = ''E1'', name = ''Ann'', email = ''ann@co.com'', department = ''Eng''\<rparr>,
         \<lparr>employee_id = ''E2'', name = ''Bob'', email = ''bob@co.com'', department = ''Ops''\<rparr>],
      attendance =
        [\<lparr>att_id = 1, att_employee_id = ''E1'', att_date = \<lparr>year = 2024, month = 1, day = 1\<rparr>,
          att_status = Present\<rparr>,
         \<lparr>att_id = 2, att_employee_id = ''E2'', att_date = \<lparr>year = 2024, month = 1, day = 1\<rparr>,
          att_status = Absent\<rparr>,
         \<lparr>att_id = 3, att_employee_id = ''E1'', att_date = \<lparr>year = 2024, month = 3, day = 1\<rparr>,
          att_status = Absent\<rparr>],
      next_id = 4\<rparr>"

definition ann_again :: EmployeeCreate where
  "ann_again = \<lparr>ec_employee_id = ''E1'', ec_name = ''Anna'', ec_email = ''anna@co.org'', ec_department = ''Ops''\<rparr>"

definition carl :: EmployeeCreate where
  "carl = \<lparr>ec_employee_id = ''E3'', ec_name = ''Carl'', ec_email = ''carl@co.com'', ec_department = ''Eng''\<rparr>"

definition carl_again :: EmployeeCreate where
  "carl_again = \<lparr>ec_employee_id = ''E3'', ec_name = ''Carla'', ec_email = ''carla@co.com'', ec_department = ''HR''\<rparr>"

definition other_session :: "store \<Rightarrow> store" where
  "other_session db = db\<lparr>employees := employees db @ [Employee_of carl_again]\<rparr>"


definition ann_jan_1 :: AttendanceCreate where
  "ann_jan_1 = \<lparr>ac_employee_id = ''E1'', ac_date = \<lparr>year = 2024, month = 1, day = 1\<rparr>, ac_status = ''Present''\<rparr>"

definition ann_jan_1_absent :: AttendanceCreate where
  "ann_jan_1_absent = \<lparr>ac_employee_id = ''E1'', ac_date = \<lparr>year = 2024, month = 1, day = 1\<rparr>, ac_status = ''Absent''\<rparr>"

definition bad_email_request :: EmployeeRequest where
  "bad_email_request =
     \<lparr>rq_employee_id = Some ''E3'', rq_name = Some ''Carl'', rq_email = Some ''carl.at.co.com'',
      rq_department = Some ''Eng''\<rparr>"

definition lowercase_status_request :: AttendanceRequest where
  "lowercase_status_request =
     \<lparr>arq_employee_id = Some ''E1'', arq_date = Some \<lparr>year = 2024, month = 1, day = 2\<rparr>,
      arq_status = Some ''present''\<rparr>"

definition no_id_request :: AttendanceRequest where
  "no_id_request =
     \<lparr>arq_employee_id = None, arq_date = Some \<lparr>year = 2024, month = 1, day = 2\<rparr>,
      arq_status = Some ''Present''\<rparr>"

definition e9_jan_1 :: AttendanceCreate where
  "e9_jan_1 = \<lparr>ac_employee_id = ''E9'', ac_date = \<lparr>year = 2024, month = 1, day = 1\<rparr>, ac_status = ''Present''\<rparr>"

definition three_dates_store :: store where
  "three_dates_store =
     \<lparr>employees =
        [\<lparr>employee_id = ''E1'', name = ''Ann'', email = ''ann@co.com'', department = ''Eng''\<rparr>,
         \<lparr>employee_id = ''E2'', name = ''Bob'', email = ''bob@co.com'', department = ''Ops''\<rparr>],
      attendance =
        [\<lparr>att_id = 1, att_employee_id = ''E1'', att_date = \<lparr>year = 2024, month = 1, day = 1\<rparr>,
          att_status = Present\<rparr>,
         \<lparr>att_id = 2, att_employee_id = ''E1'', att_date = \<lparr>year = 2024, month = 3, day = 1\<rparr>,
          att_status = Absent\<rparr>,
         \<lparr>att_id = 3, att_employee_id = ''E1'', att_date = \<lparr>year = 2024, month = 2, day = 1\<rparr>,
          att_status = Present\<rparr>],
      next_id = 4\<rparr>"

definition ann :: EmployeeCreate where
  "ann = \<lparr>ec_employee_id = ''E1'', ec_name = ''Ann'', ec_email = ''ann@co.com'', ec_department = ''Eng''\<rparr>"

definition reached_store :: store where
  "reached_store = fst (create_attendance (fst (create_employee init_db ann)) ann_jan_1)"

definition e9_request :: AttendanceRequest where
  "e9_request =
     \<lparr>arq_employee_id = Some ''E9'', arq_date = Some \<lparr>year = 2024, month = 1, day = 1\<rparr>,
      arq_status = Some ''Present''\<rparr>"

definition six_rows_store :: store where
  "six_rows_store =
     \<lparr>employees =
        [\<lparr>employee_id = ''E1'', name = ''Ann'', email = ''ann@co.com'', department = ''Eng''\<rparr>,
         \<lparr>employee_id = ''E2'', name = ''Bob'', email = ''bob@co.com'', department = ''Ops''\<rparr>,
         \<lparr>employee_id = ''E3'', name = ''Carl'', email = ''carl@co.com'', department = ''Eng''\<rparr>],
      attendance =
        [\<lparr>att_id = 1, att_employee_id = ''E1'', att_date = \<lparr>year = 2024, month = 2, day = 27\<rparr>,
          att_status = Present\<rparr>,
         \<lparr>att_id = 2, att_employee_id = ''E2'', att_date = \<lparr>year = 2024, month = 2, day = 28\<rparr>,
          att_status = Absent\<rparr>,
         \<lparr>att_id = 3, att_employee_id = ''E1'', att_date = \<lparr>year = 2024, month = 3, day = 1\<rparr>,
          att_status = Present\<rparr>,
         \<lparr>att_id = 4, att_employee_id = ''E2'', att_date = \<lparr>year = 2024, month = 3, day = 1\<rparr>,
          att_status = Absent\<rparr>,
         \<lparr>att_id = 5, att_employee_id = ''E3'', att_date = \<lparr>year = 2024, month = 2, day = 29\<rparr>,
          att_status = Present\<rparr>,
         \<lparr>att_id = 6, att_employee_id = ''E3'', att_date = \<lparr>year = 2024, month = 3, day = 1\<rparr>,
          att_status = Present\<rparr>],
      next_id = 7\<rparr>"

definition march_1 :: date where
  "march_1 = \<lparr>year = 2024, month = 3, day = 1\<rparr>"

definition six_rows_stats :: DashboardStats where
  "six_rows_stats =
     \<lparr>total_employees = 3, total_attendance = 6, present_today = 2, absent_today = 1,
      departments = [(''Ops'', 1), (''Eng'', 2)],
      recent_attendance =
        [\<lparr>ra_employee_id = ''E1'', ra_employee_name = ''Ann'', ra_date = ''2024-03-01'',
          ra_status = ''Present''\<rparr>,
         \<lparr>ra_employee_id = ''E2'', ra_employee_name = ''Bob'', ra_date = ''2024-03-01'',
          ra_status = ''Absent''\<rparr>,
         \<lparr>ra_employee_id = ''E3'', ra_employee_name = ''Carl'', ra_date = ''2024-03-01'',
          ra_status = ''Present''\<rparr>,
         \<lparr>ra_employee_id = ''E3'', ra_employee_name = ''Carl'', ra_date = ''2024-02-29'',
          ra_status = ''Present''\<rparr>,
         \<lparr>ra_employee_id = ''E2'', ra_employee_name = ''Bob'', ra_date = ''2024-02-28'',
          ra_status = ''Absent''\<rparr>]\<rparr>"







section \<open>Basic facts about the store\<close>

lemma query_employee_None:
  "query_employee db k = None \<longleftrightarrow> k \<notin> set (map employee_id (employees db))"
  by (auto simp: query_employee_def find_None_iff)

lemma query_employee_Some:
  "query_employee db k = Some e \<Longrightarrow> e \<in> set (employees db) \<and> employee_id e = k"
  by (auto simp: query_employee_def find_Some_iff)

section \<open>Deleting an employee\<close>

text \<open>
  C3. Deleting an unknown employee returns false and leaves the store as it was.
  Deleting a stored employee returns true, and the one resulting store holds neither
  an employee row with that id nor an attendance row that references it; every other
  row is kept.
\<close>

theorem delete_employee_cascade:
  "(query_employee db k = None \<longrightarrow> delete_employee db k = (db, False)) \<and>
   (query_employee db k \<noteq> None \<longrightarrow>
      snd (delete_employee db k) = True \<and>
      query_employee (fst (delete_employee db k)) k = None \<and>
      filter (\<lambda>a. att_employee_id a = k) (attendance (fst (delete_employee db k))) = [] \<and>
      employees (fst (delete_employee db k)) = filter (\<lambda>e. employee_id e \<noteq> k) (employees db) \<and>
      attendance (fst (delete_employee db k)) =
        filter (\<lambda>a. att_employee_id a \<noteq> k) (attendance db))"
proof (cases "query_employee db k")
  case None
  then show ?thesis by (simp add: delete_employee_def)
next
  case (Some e)
  then have k: "employee_id e = k" by (simp add: query_employee_Some)
  have del: "delete_employee db k = (delete_cascade e db, True)"
    using Some by (simp add: delete_employee_def)
  have q: "query_employee (delete_cascade e db) k = None"
    by (auto simp: query_employee_None delete_cascade_def k)
  have a: "filter (\<lambda>a. att_employee_id a = k) (attendance (delete_cascade e db)) = []"
    by (simp add: delete_cascade_def k filter_empty_conv)
  show ?thesis using Some q a by (simp add: del) (simp add: delete_cascade_def k)
qed

theorem delete_employee_cascade_witness:
  "query_employee example_store ''E9'' = None \<and>
   delete_employee example_store ''E9'' = (example_store, False) \<and>
   query_employee example_store ''E1'' \<noteq> None \<and>
   snd (delete_employee example_store ''E1'') = True \<and>
   query_employee (fst (delete_employee example_store ''E1'')) ''E1'' = None \<and>
   filter (\<lambda>a. att_employee_id a = ''E1'')
     (attendance (fst (delete_employee example_store ''E1''))) = [] \<and>
   map employee_id (employees (fst (delete_employee example_store ''E1''))) = [''E2''] \<and>
   map att_id (attendance (fst (delete_employee example_store ''E1''))) = [2]"
  using delete_employee_cascade [of example_store "''E1''"]
        delete_employee_cascade [of example_store "''E9''"]
  by (simp add: example_store_def query_employee_def)

section \<open>Creating an employee\<close>

lemma add_employee_dup:
  "k \<in> set (map employee_id (employees db)) \<Longrightarrow> employee_id e = k \<Longrightarrow> add_employee e db = Inl IntegrityError"
  by (simp add: add_employee_def)

lemma unique_filter_id:
  "distinct (map employee_id es) \<Longrightarrow> e0 \<in> set es \<Longrightarrow>
   filter (\<lambda>x. employee_id x = employee_id e0) es = [e0]"
proof (induction es)
  case Nil
  then show ?case by simp
next
  case (Cons x xs)
  show ?case
  proof (cases "x = e0")
    case True
    have "\<forall>y \<in> set xs. employee_id y \<noteq> employee_id e0"
      using Cons.prems(1) True by (force simp: image_iff)
    then have "filter (\<lambda>y. employee_id y = employee_id e0) xs = []"
      by (simp add: filter_empty_conv)
    then show ?thesis using True by simp
  next
    case False
    then have in_xs: "e0 \<in> set xs" using Cons.prems(2) by simp
    then have "employee_id x \<noteq> employee_id e0" using Cons.prems(1) by auto
    then show ?thesis using Cons.IH Cons.prems(1) in_xs by simp
  qed
qed

lemma create_employee_fresh:
  "query_employee db (ec_employee_id e) = None \<Longrightarrow>
   create_employee db e = (db\<lparr>employees := employees db @ [Employee_of e]\<rparr>, Inr (Employee_of e))"
proof -
  assume q: "query_employee db (ec_employee_id e) = None"
  then have "ec_employee_id e \<notin> set (map employee_id (employees db))"
    by (simp add: query_employee_None)
  then have "add_employee (Employee_of e) db = Inr (db\<lparr>employees := employees db @ [Employee_of e]\<rparr>)"
    by (simp add: add_employee_def Employee_of_def)
  then show ?thesis
    using q by (simp add: create_employee_def create_employee_interleaved_def Let_def)
qed

lemma create_employee_existing:
  "query_employee db (ec_employee_id e) = Some e0 \<Longrightarrow>
   create_employee db e = (db, Inl DuplicateEmployeeError)"
  by (simp add: create_employee_def create_employee_interleaved_def)

text \<open>
  C1. Creating an employee whose id is already stored fails with
  \<open>DuplicateEmployeeError\<close> and leaves the store as it was; with unique ids the store
  then holds exactly one row with that id, the row stored before. In particular, after
  a first creation succeeded, a second one with the same id fails and the listing holds
  the first creation's values. When the pre-check passes but the id is in the store at
  commit time, the store's \<open>IntegrityError\<close> is reported as
  \<open>DuplicateEmployeeError\<close> too, and this session writes nothing.
\<close>

theorem create_employee_duplicate:
  "(employee_ids_unique db \<and> e0 \<in> set (employees db) \<and> employee_id e0 = ec_employee_id e2 \<longrightarrow>
      create_employee db e2 = (db, Inl DuplicateEmployeeError) \<and>
      filter (\<lambda>x. employee_id x = ec_employee_id e2)
        (get_all_employees (fst (create_employee db e2))) = [e0]) \<and>
   (query_employee db (ec_employee_id e1) = None \<and> ec_employee_id e2 = ec_employee_id e1 \<longrightarrow>
      snd (create_employee db e1) = Inr (Employee_of e1) \<and>
      create_employee (fst (create_employee db e1)) e2 =
        (fst (create_employee db e1), Inl DuplicateEmployeeError) \<and>
      filter (\<lambda>x. employee_id x = ec_employee_id e1)
        (get_all_employees (fst (create_employee db e1))) = [Employee_of e1]) \<and>
   (query_employee db (ec_employee_id e2) = None \<and>
    ec_employee_id e2 \<in> set (map employee_id (employees (others db))) \<longrightarrow>
      create_employee_interleaved others db e2 = (others db, Inl DuplicateEmployeeError))"
proof (intro conjI impI)
  assume a: "employee_ids_unique db \<and> e0 \<in> set (employees db) \<and> employee_id e0 = ec_employee_id e2"
  then have "ec_employee_id e2 \<in> set (map employee_id (employees db))" by force
  then obtain x where x: "query_employee db (ec_employee_id e2) = Some x"
    using query_employee_None [of db "ec_employee_id e2"] by (cases "query_employee db (ec_employee_id e2)") auto
  then show dup: "create_employee db e2 = (db, Inl DuplicateEmployeeError)"
    by (rule create_employee_existing)
  have "filter (\<lambda>x. employee_id x = employee_id e0) (employees db) = [e0]"
    using a unique_filter_id [of "employees db" e0] by (simp add: employee_ids_unique_def)
  then show "filter (\<lambda>x. employee_id x = ec_employee_id e2)
        (get_all_employees (fst (create_employee db e2))) = [e0]"
    using a by (simp add: dup get_all_employees_def)
next
  assume a: "query_employee db (ec_employee_id e1) = None \<and> ec_employee_id e2 = ec_employee_id e1"
  let ?db1 = "db\<lparr>employees := employees db @ [Employee_of e1]\<rparr>"
  have c: "create_employee db e1 = (?db1, Inr (Employee_of e1))"
    using a by (simp add: create_employee_fresh)
  show "snd (create_employee db e1) = Inr (Employee_of e1)" by (simp add: c)
  have "\<forall>x \<in> set (employees db). employee_id x \<noteq> ec_employee_id e1"
    using a by (force simp: query_employee_None image_iff)
  then have f: "filter (\<lambda>x. employee_id x = ec_employee_id e1) (employees db) = []"
    by (simp add: filter_empty_conv)
  show "filter (\<lambda>x. employee_id x = ec_employee_id e1)
        (get_all_employees (fst (create_employee db e1))) = [Employee_of e1]"
    by (simp add: c get_all_employees_def f) (simp add: Employee_of_def)
  have "query_employee ?db1 (ec_employee_id e2) \<noteq> None"
    using a by (simp add: query_employee_None Employee_of_def)
  then obtain x where "query_employee ?db1 (ec_employee_id e2) = Some x" by blast
  then have "create_employee ?db1 e2 = (?db1, Inl DuplicateEmployeeError)"
    by (rule create_employee_existing)
  then show "create_employee (fst (create_employee db e1)) e2 =
        (fst (create_employee db e1), Inl DuplicateEmployeeError)"
    by (simp add: c)
next
  assume a: "query_employee db (ec_employee_id e2) = None \<and>
    ec_employee_id e2 \<in> set (map employee_id (employees (others db)))"
  then have "add_employee (Employee_of e2) (others db) = Inl IntegrityError"
    by (intro add_employee_dup [where k = "ec_employee_id e2"]) (simp_all add: Employee_of_def)
  then show "create_employee_interleaved others db e2 = (others db, Inl DuplicateEmployeeError)"
    using a by (simp add: create_employee_interleaved_def)
qed

theorem create_employee_duplicate_witness:
  "employee_ids_unique example_store \<and>
   create_employee example_store ann_again = (example_store, Inl DuplicateEmployeeError) \<and>
   filter (\<lambda>x. employee_id x = ''E1'') (get_all_employees (fst (create_employee example_store ann_again))) =
     [\<lparr>employee_id = ''E1'', name = ''Ann'', email = ''ann@co.com'', department = ''Eng''\<rparr>] \<and>
   query_employee example_store ''E3'' = None \<and>
   snd (create_employee example_store carl) = Inr (Employee_of carl) \<and>
   create_employee (fst (create_employee example_store carl)) carl_again =
     (fst (create_employee example_store carl), Inl DuplicateEmployeeError) \<and>
   filter (\<lambda>x. employee_id x = ''E3'') (get_all_employees (fst (create_employee example_store carl))) =
     [\<lparr>employee_id = ''E3'', name = ''Carl'', email = ''carl@co.com'', department = ''Eng''\<rparr>] \<and>
   create_employee_interleaved other_session example_store carl =
     (other_session example_store, Inl DuplicateEmployeeError)"
proof -
  let ?ann = "\<lparr>employee_id = ''E1'', name = ''Ann'', email = ''ann@co.com'', department = ''Eng''\<rparr>"
  have ids: "ec_employee_id ann_again = ''E1''" "ec_employee_id carl = ''E3''"
    "ec_employee_id carl_again = ''E3''"
    by (simp_all add: ann_again_def carl_def carl_again_def)
  have u: "employee_ids_unique example_store"
    by (simp add: employee_ids_unique_def example_store_def)
  have m: "?ann \<in> set (employees example_store)"
    by (simp add: example_store_def)
  have q: "query_employee example_store ''E3'' = None"
    by (simp add: query_employee_def example_store_def)
  have r: "''E3'' \<in> set (map employee_id (employees (other_session example_store)))"
    by (simp add: other_session_def Employee_of_def carl_again_def)
  have a: "create_employee example_store ann_again = (example_store, Inl DuplicateEmployeeError) \<and>
      filter (\<lambda>x. employee_id x = ''E1'')
        (get_all_employees (fst (create_employee example_store ann_again))) = [?ann]"
    using u m create_employee_duplicate [of example_store ?ann ann_again carl other_session]
    by (auto simp: ids)
  have b: "snd (create_employee example_store carl) = Inr (Employee_of carl) \<and>
      create_employee (fst (create_employee example_store carl)) carl_again =
        (fst (create_employee example_store carl), Inl DuplicateEmployeeError) \<and>
      filter (\<lambda>x. employee_id x = ''E3'')
        (get_all_employees (fst (create_employee example_store carl))) = [Employee_of carl]"
    using q create_employee_duplicate [of example_store ?ann carl_again carl other_session]
    by (auto simp: ids)
  have c: "create_employee_interleaved other_session example_store carl =
      (other_session example_store, Inl DuplicateEmployeeError)"
    using q r create_employee_duplicate [of example_store ?ann carl carl other_session]
    by (auto simp: ids)
  have d: "Employee_of carl =
      \<lparr>employee_id = ''E3'', name = ''Carl'', email = ''carl@co.com'', department = ''Eng''\<rparr>"
    by (simp add: Employee_of_def carl_def)
  show ?thesis using u q a b c unfolding d by blast
qed

section \<open>Creating attendance\<close>

lemma create_attendance_found:
  "query_employee db (ac_employee_id a) = Some e \<Longrightarrow>
   create_attendance db a =
     (db\<lparr>attendance := attendance db @
            [\<lparr>att_id = next_id db, att_employee_id = ac_employee_id a, att_date = ac_date a,
              att_status = (if ac_status a = ''Present'' then Present else Absent)\<rparr>],
         next_id := Suc (next_id db)\<rparr>,
      Inr \<lparr>att_id = next_id db, att_employee_id = ac_employee_id a, att_date = ac_date a,
            att_status = (if ac_status a = ''Present'' then Present else Absent)\<rparr>)"
  by (simp add: create_attendance_def add_attendance_def Let_def)

lemma create_attendance_not_found:
  "query_employee db (ac_employee_id a) = None \<Longrightarrow>
   create_attendance db a = (db, Inl EmployeeNotFoundError)"
  by (simp add: create_attendance_def)

text \<open>
  C8. For a stored employee, two successive attendance creations with the same
  employee id and date both succeed; the store then holds both rows, appended in
  order, and their ids differ. When the ids of the store were distinct and below the
  counter before, they still are afterwards.
\<close>

theorem attendance_same_day_twice:
  "query_employee db (ac_employee_id a1) \<noteq> None \<and> ac_employee_id a2 = ac_employee_id a1 \<and>
   ac_date a2 = ac_date a1 \<longrightarrow>
     (\<exists>db1 r1 db2 r2.
        create_attendance db a1 = (db1, Inr r1) \<and> create_attendance db1 a2 = (db2, Inr r2) \<and>
        att_id r1 \<noteq> att_id r2 \<and>
        att_employee_id r1 = ac_employee_id a1 \<and> att_employee_id r2 = ac_employee_id a1 \<and>
        att_date r1 = ac_date a1 \<and> att_date r2 = ac_date a1 \<and>
        attendance db2 = attendance db @ [r1, r2] \<and>
        (attendance_ids_fresh db \<longrightarrow> attendance_ids_fresh db2))"
proof
  assume a: "query_employee db (ac_employee_id a1) \<noteq> None \<and>
    ac_employee_id a2 = ac_employee_id a1 \<and> ac_date a2 = ac_date a1"
  then obtain e where e: "query_employee db (ac_employee_id a1) = Some e" by blast
  let ?r1 = "\<lparr>att_id = next_id db, att_employee_id = ac_employee_id a1, att_date = ac_date a1,
              att_status = (if ac_status a1 = ''Present'' then Present else Absent)\<rparr>"
  let ?db1 = "db\<lparr>attendance := attendance db @ [?r1], next_id := Suc (next_id db)\<rparr>"
  let ?r2 = "\<lparr>att_id = Suc (next_id db), att_employee_id = ac_employee_id a1, att_date = ac_date a1,
              att_status = (if ac_status a2 = ''Present'' then Present else Absent)\<rparr>"
  let ?db2 = "?db1\<lparr>attendance := attendance ?db1 @ [?r2], next_id := Suc (next_id ?db1)\<rparr>"
  have c1: "create_attendance db a1 = (?db1, Inr ?r1)"
    using e by (rule create_attendance_found)
  have "query_employee ?db1 (ac_employee_id a2) = Some e"
    using e a by (simp add: query_employee_def)
  from create_attendance_found [OF this]
  have c2: "create_attendance ?db1 a2 = (?db2, Inr ?r2)"
    using a by simp
  have fresh: "attendance_ids_fresh db \<longrightarrow> attendance_ids_fresh ?db2"
    by (auto simp: attendance_ids_fresh_def)
  have "att_id ?r1 \<noteq> att_id ?r2 \<and>
        att_employee_id ?r1 = ac_employee_id a1 \<and> att_employee_id ?r2 = ac_employee_id a1 \<and>
        att_date ?r1 = ac_date a1 \<and> att_date ?r2 = ac_date a1 \<and>
        attendance ?db2 = attendance db @ [?r1, ?r2]"
    by simp
  with c1 c2 fresh show "\<exists>db1 r1 db2 r2.
        create_attendance db a1 = (db1, Inr r1) \<and> create_attendance db1 a2 = (db2, Inr r2) \<and>
        att_id r1 \<noteq> att_id r2 \<and>
        att_employee_id r1 = ac_employee_id a1 \<and> att_employee_id r2 = ac_employee_id a1 \<and>
        att_date r1 = ac_date a1 \<and> att_date r2 = ac_date a1 \<and>
        attendance db2 = attendance db @ [r1, r2] \<and>
        (attendance_ids_fresh db \<longrightarrow> attendance_ids_fresh db2)"
    by blast
qed


theorem attendance_same_day_twice_witness:
  "query_employee example_store (ac_employee_id ann_jan_1) \<noteq> None \<and>
   ac_employee_id ann_jan_1_absent = ac_employee_id ann_jan_1 \<and>
   ac_date ann_jan_1_absent = ac_date ann_jan_1 \<and>
   attendance_ids_fresh example_store \<and>
   (\<exists>db1 r1 db2 r2.
        create_attendance example_store ann_jan_1 = (db1, Inr r1) \<and>
        create_attendance db1 ann_jan_1_absent = (db2, Inr r2) \<and>
        att_id r1 \<noteq> att_id r2 \<and>
        att_employee_id r1 = ''E1'' \<and> att_employee_id r2 = ''E1'' \<and>
        att_date r1 = \<lparr>year = 2024, month = 1, day = 1\<rparr> \<and>
        att_date r2 = \<lparr>year = 2024, month = 1, day = 1\<rparr> \<and>
        attendance db2 = attendance example_store @ [r1, r2] \<and>
        attendance_ids_fresh db2)"
proof -
  have q: "query_employee example_store (ac_employee_id ann_jan_1) \<noteq> None"
    by (simp add: query_employee_def example_store_def ann_jan_1_def)
  have s: "ac_employee_id ann_jan_1_absent = ac_employee_id ann_jan_1"
    "ac_date ann_jan_1_absent = ac_date ann_jan_1"
    by (simp_all add: ann_jan_1_def ann_jan_1_absent_def)
  have f: "attendance_ids_fresh example_store"
    by (simp add: attendance_ids_fresh_def example_store_def)
  have v: "ac_employee_id ann_jan_1 = ''E1''" "ac_date ann_jan_1 = \<lparr>year = 2024, month = 1, day = 1\<rparr>"
    by (simp_all add: ann_jan_1_def)
  show ?thesis
    using q s f attendance_same_day_twice [of example_store ann_jan_1 ann_jan_1_absent]
    unfolding v by blast
qed

section \<open>Rejected requests\<close>

lemma create_employee_error_unchanged:
  "snd (create_employee db e) = Inl err \<Longrightarrow> create_employee db e = (db, Inl DuplicateEmployeeError)"
  by (cases "query_employee db (ec_employee_id e)")
     (simp_all add: create_employee_fresh create_employee_existing)

lemma create_attendance_error_unchanged:
  "snd (create_attendance db a) = Inl err \<Longrightarrow> create_attendance db a = (db, Inl EmployeeNotFoundError)"
  by (cases "query_employee db (ac_employee_id a)")
     (simp_all add: create_attendance_found create_attendance_not_found)

lemma create_employee_endpoint_cases:
  "create_employee_endpoint EmailStr db rq =
     (case EmployeeCreate_validate EmailStr rq of
        Inl errs \<Rightarrow> (db, Inl (HTTP_422 errs))
      | Inr v \<Rightarrow>
          (case query_employee db (ec_employee_id v) of
             None \<Rightarrow> (db\<lparr>employees := employees db @ [Employee_of v]\<rparr>, Inr (Employee_of v))
           | Some e \<Rightarrow> (db, Inl HTTP_409_CONFLICT)))"
  by (auto simp: create_employee_endpoint_def create_employee_fresh create_employee_existing
      split: sum.splits option.splits)

lemma create_attendance_endpoint_cases:
  "create_attendance_endpoint db rq =
     (case AttendanceCreate_validate rq of
        Inl errs \<Rightarrow> (db, Inl (HTTP_422 errs))
      | Inr a \<Rightarrow>
          (case query_employee db (ac_employee_id a) of
             None \<Rightarrow> (db, Inl HTTP_404_NOT_FOUND)
           | Some e \<Rightarrow> (fst (create_attendance db a), Inr (from_orm (projr (snd (create_attendance db a)))))))"
  by (auto simp: create_attendance_endpoint_def create_attendance_found create_attendance_not_found
      split: sum.splits option.splits)

text \<open>
  C9. A request that is answered with an error leaves the store as it was. For the two
  creating endpoints and for the deletion, an error result comes with the store that
  the call received; the error is then a validation error (\<open>HTTP_422\<close>, raised before
  crud.py is called), the conflict of a duplicate id, or the missing employee. The same
  holds of the two creating functions of crud.py. A creation that loses the race is
  rejected with the store that the other session left.
\<close>

theorem rejected_request_leaves_store:
  "(snd (create_employee_endpoint EmailStr db rq) = Inl herr \<longrightarrow>
      fst (create_employee_endpoint EmailStr db rq) = db \<and>
      ((\<exists>errs. herr = HTTP_422 errs \<and> EmployeeCreate_validate EmailStr rq = Inl errs) \<or>
       herr = HTTP_409_CONFLICT)) \<and>
   (snd (create_attendance_endpoint db arq) = Inl herr' \<longrightarrow>
      fst (create_attendance_endpoint db arq) = db \<and>
      ((\<exists>errs. herr' = HTTP_422 errs \<and> AttendanceCreate_validate arq = Inl errs) \<or>
       herr' = HTTP_404_NOT_FOUND)) \<and>
   (snd (delete_employee_endpoint db k) = Inl herr'' \<longrightarrow>
      fst (delete_employee_endpoint db k) = db \<and> herr'' = HTTP_404_NOT_FOUND) \<and>
   (snd (create_employee db e) = Inl cerr \<longrightarrow>
      create_employee db e = (db, Inl DuplicateEmployeeError)) \<and>
   (snd (create_attendance db a) = Inl cerr' \<longrightarrow>
      create_attendance db a = (db, Inl EmployeeNotFoundError)) \<and>
   (snd (create_employee_interleaved others db e) = Inl cerr'' \<longrightarrow>
      fst (create_employee_interleaved others db e) \<in> {db, others db})"
proof (intro conjI impI)
  assume "snd (create_employee_endpoint EmailStr db rq) = Inl herr"
  then show "fst (create_employee_endpoint EmailStr db rq) = db"
    by (auto simp: create_employee_endpoint_cases split: sum.splits option.splits)
next
  assume "snd (create_employee_endpoint EmailStr db rq) = Inl herr"
  then show "(\<exists>errs. herr = HTTP_422 errs \<and> EmployeeCreate_validate EmailStr rq = Inl errs) \<or>
       herr = HTTP_409_CONFLICT"
    by (auto simp: create_employee_endpoint_cases split: sum.splits option.splits)
next
  assume "snd (create_attendance_endpoint db arq) = Inl herr'"
  then show "fst (create_attendance_endpoint db arq) = db"
    by (auto simp: create_attendance_endpoint_cases split: sum.splits option.splits)
next
  assume "snd (create_attendance_endpoint db arq) = Inl herr'"
  then show "(\<exists>errs. herr' = HTTP_422 errs \<and> AttendanceCreate_validate arq = Inl errs) \<or>
       herr' = HTTP_404_NOT_FOUND"
    by (auto simp: create_attendance_endpoint_cases split: sum.splits option.splits)
next
  assume "snd (delete_employee_endpoint db k) = Inl herr''"
  then show "fst (delete_employee_endpoint db k) = db"
    by (auto simp: delete_employee_endpoint_def delete_employee_def split: option.splits)
next
  assume "snd (delete_employee_endpoint db k) = Inl herr''"
  then show "herr'' = HTTP_404_NOT_FOUND"
    by (auto simp: delete_employee_endpoint_def delete_employee_def split: option.splits)
next
  assume "snd (create_employee db e) = Inl cerr"
  then show "create_employee db e = (db, Inl DuplicateEmployeeError)"
    by (rule create_employee_error_unchanged)
next
  assume "snd (create_attendance db a) = Inl cerr'"
  then show "create_attendance db a = (db, Inl EmployeeNotFoundError)"
    by (rule create_attendance_error_unchanged)
next
  assume "snd (create_employee_interleaved others db e) = Inl cerr''"
  then show "fst (create_employee_interleaved others db e) \<in> {db, others db}"
    by (auto simp: create_employee_interleaved_def Let_def split: option.splits sum.splits store_error.splits)
qed

section \<open>The status of an attendance request\<close>

lemma status_field_invalid:
  "s \<noteq> ''Present'' \<Longrightarrow> s \<noteq> ''Absent'' \<Longrightarrow> status_field (Some s) = Inl InvalidStatusValue"
  by (simp add: status_field_def)

text \<open>
  C4. For every string other than \<^verbatim>\<open>Present\<close> and \<^verbatim>\<open>Absent\<close>, compared character
  by character, an attendance request with that status is rejected with a validation
  error that contains \<open>InvalidStatusValue\<close>, whatever its other fields and whatever
  the store, and the store is left as it was. The two exact strings do not produce that
  error.
\<close>

theorem invalid_status_rejected:
  "(s \<noteq> ''Present'' \<and> s \<noteq> ''Absent'' \<longrightarrow>
      (\<exists>errs. create_attendance_endpoint db (rq\<lparr>arq_status := Some s\<rparr>) = (db, Inl (HTTP_422 errs)) \<and>
              InvalidStatusValue \<in> set errs)) \<and>
   (s = ''Present'' \<or> s = ''Absent'' \<longrightarrow>
      (\<forall>errs. snd (create_attendance_endpoint db (rq\<lparr>arq_status := Some s\<rparr>)) = Inl (HTTP_422 errs)
         \<longrightarrow> InvalidStatusValue \<notin> set errs))"
proof (intro conjI impI allI)
  assume "s \<noteq> ''Present'' \<and> s \<noteq> ''Absent''"
  then have st: "status_field (Some s) = Inl InvalidStatusValue"
    by (simp add: status_field_invalid)
  let ?i = "Field_min_length_1 (arq_employee_id rq)"
  let ?d = "date_field (arq_date rq)"
  have "AttendanceCreate_validate (rq\<lparr>arq_status := Some s\<rparr>) =
      Inl (field_errors ?i @ field_errors ?d @ [InvalidStatusValue])"
    by (simp add: AttendanceCreate_validate_def st field_errors_def split: sum.splits)
  then show "\<exists>errs. create_attendance_endpoint db (rq\<lparr>arq_status := Some s\<rparr>) = (db, Inl (HTTP_422 errs)) \<and>
              InvalidStatusValue \<in> set errs"
    by (simp add: create_attendance_endpoint_def)
next
  fix errs
  assume ok: "s = ''Present'' \<or> s = ''Absent''"
    and r: "snd (create_attendance_endpoint db (rq\<lparr>arq_status := Some s\<rparr>)) = Inl (HTTP_422 errs)"
  from ok have st: "status_field (Some s) = Inr s"
    by (auto simp: status_field_def)
  from r have "AttendanceCreate_validate (rq\<lparr>arq_status := Some s\<rparr>) = Inl errs"
    by (auto simp: create_attendance_endpoint_cases split: sum.splits option.splits)
  then show "InvalidStatusValue \<notin> set errs"
    by (auto simp: AttendanceCreate_validate_def st field_errors_def Field_min_length_1_def
        date_field_def split: sum.splits option.splits if_splits)
qed

lemma bad_email_no_match: "\<not> re_match email_pattern ''carl.at.co.com''"
  by code_simp

lemma bad_email_request_rejected:
  "create_employee_endpoint Some example_store bad_email_request =
     (example_store, Inl (HTTP_422 [InvalidEmailFormat]))"
  using bad_email_no_match
  by (simp add: create_employee_endpoint_def EmployeeCreate_validate_def bad_email_request_def
      Field_min_length_1_def email_field_def validate_email_format_def field_errors_def)

lemma lowercase_status_request_rejected:
  "create_attendance_endpoint example_store lowercase_status_request =
     (example_store, Inl (HTTP_422 [InvalidStatusValue]))"
  by (simp add: create_attendance_endpoint_def AttendanceCreate_validate_def
      lowercase_status_request_def Field_min_length_1_def date_field_def status_field_def
      field_errors_def)

theorem rejected_request_leaves_store_witness:
  "snd (create_employee_endpoint Some example_store bad_email_request) =
     Inl (HTTP_422 [InvalidEmailFormat]) \<and>
   fst (create_employee_endpoint Some example_store bad_email_request) = example_store \<and>
   snd (create_attendance_endpoint example_store lowercase_status_request) =
     Inl (HTTP_422 [InvalidStatusValue]) \<and>
   fst (create_attendance_endpoint example_store lowercase_status_request) = example_store \<and>
   snd (delete_employee_endpoint example_store ''E9'') = Inl HTTP_404_NOT_FOUND \<and>
   fst (delete_employee_endpoint example_store ''E9'') = example_store \<and>
   snd (create_employee example_store ann_again) = Inl DuplicateEmployeeError \<and>
   create_employee example_store ann_again = (example_store, Inl DuplicateEmployeeError) \<and>
   snd (create_attendance example_store e9_jan_1) = Inl EmployeeNotFoundError \<and>
   create_attendance example_store e9_jan_1 = (example_store, Inl EmployeeNotFoundError) \<and>
   snd (create_employee_interleaved other_session example_store carl) = Inl DuplicateEmployeeError \<and>
   fst (create_employee_interleaved other_session example_store carl)
     \<in> {example_store, other_session example_store}"
proof -
  have h1: "snd (create_employee_endpoint Some example_store bad_email_request) =
      Inl (HTTP_422 [InvalidEmailFormat])"
    by (simp add: bad_email_request_rejected)
  have h2: "snd (create_attendance_endpoint example_store lowercase_status_request) =
      Inl (HTTP_422 [InvalidStatusValue])"
    by (simp add: lowercase_status_request_rejected)
  have h3: "snd (delete_employee_endpoint example_store ''E9'') = Inl HTTP_404_NOT_FOUND"
    by (simp add: delete_employee_endpoint_def delete_employee_def query_employee_def
        example_store_def)
  have h4: "snd (create_employee example_store ann_again) = Inl DuplicateEmployeeError"
    by (simp add: create_employee_def create_employee_interleaved_def query_employee_def
        example_store_def ann_again_def)
  have h5: "snd (create_attendance example_store e9_jan_1) = Inl EmployeeNotFoundError"
    by (simp add: create_attendance_def query_employee_def example_store_def e9_jan_1_def)
  have h6: "snd (create_employee_interleaved other_session example_store carl) =
      Inl DuplicateEmployeeError"
    by (simp add: create_employee_interleaved_def query_employee_def example_store_def carl_def
        other_session_def add_employee_def Employee_of_def carl_again_def)
  note t1 = rejected_request_leaves_store [of Some example_store bad_email_request
      "HTTP_422 [InvalidEmailFormat]" lowercase_status_request "HTTP_422 [InvalidStatusValue]"
      "''E9''" HTTP_404_NOT_FOUND ann_again DuplicateEmployeeError e9_jan_1
      EmployeeNotFoundError other_session DuplicateEmployeeError]
  note t2 = rejected_request_leaves_store [of Some example_store bad_email_request
      "HTTP_422 [InvalidEmailFormat]" lowercase_status_request "HTTP_422 [InvalidStatusValue]"
      "''E9''" HTTP_404_NOT_FOUND carl DuplicateEmployeeError e9_jan_1
      EmployeeNotFoundError other_session DuplicateEmployeeError]
  show ?thesis using h1 h2 h3 h4 h5 h6 t1 t2 by blast
qed

theorem invalid_status_rejected_witness:
  "(\<exists>errs. create_attendance_endpoint example_store (lowercase_status_request\<lparr>arq_status := Some ''present''\<rparr>) =
       (example_store, Inl (HTTP_422 errs)) \<and> InvalidStatusValue \<in> set errs) \<and>
   (\<exists>errs. create_attendance_endpoint example_store (lowercase_status_request\<lparr>arq_status := Some '' Present ''\<rparr>) =
       (example_store, Inl (HTTP_422 errs)) \<and> InvalidStatusValue \<in> set errs) \<and>
   (\<exists>errs. create_attendance_endpoint example_store (lowercase_status_request\<lparr>arq_status := Some ''Here''\<rparr>) =
       (example_store, Inl (HTTP_422 errs)) \<and> InvalidStatusValue \<in> set errs) \<and>
   snd (create_attendance_endpoint example_store (no_id_request\<lparr>arq_status := Some ''Present''\<rparr>)) =
     Inl (HTTP_422 [RequiredFieldMissing]) \<and>
   InvalidStatusValue \<notin> set [RequiredFieldMissing]"
proof -
  have a: "\<exists>errs. create_attendance_endpoint example_store
        (lowercase_status_request\<lparr>arq_status := Some ''present''\<rparr>) =
       (example_store, Inl (HTTP_422 errs)) \<and> InvalidStatusValue \<in> set errs"
    using invalid_status_rejected [of "''present''" example_store lowercase_status_request]
    by simp
  have b: "\<exists>errs. create_attendance_endpoint example_store
        (lowercase_status_request\<lparr>arq_status := Some '' Present ''\<rparr>) =
       (example_store, Inl (HTTP_422 errs)) \<and> InvalidStatusValue \<in> set errs"
    using invalid_status_rejected [of "'' Present ''" example_store lowercase_status_request]
    by simp
  have c: "\<exists>errs. create_attendance_endpoint example_store
        (lowercase_status_request\<lparr>arq_status := Some ''Here''\<rparr>) =
       (example_store, Inl (HTTP_422 errs)) \<and> InvalidStatusValue \<in> set errs"
    using invalid_status_rejected [of "''Here''" example_store lowercase_status_request]
    by simp
  have m: "snd (create_attendance_endpoint example_store (no_id_request\<lparr>arq_status := Some ''Present''\<rparr>)) =
      Inl (HTTP_422 [RequiredFieldMissing])"
    by (simp add: create_attendance_endpoint_def AttendanceCreate_validate_def no_id_request_def
        Field_min_length_1_def date_field_def status_field_def field_errors_def)
  have d: "InvalidStatusValue \<notin> set [RequiredFieldMissing]"
    using m invalid_status_rejected [of "''Present''" example_store no_id_request]
    by simp
  show ?thesis using a b c m d by (intro conjI)
qed

section \<open>Ordering by date\<close>

lemma date_le_total: "date_le a b \<or> date_le b a"
  by (auto simp: date_le_def)

lemma date_le_trans: "date_le a b \<Longrightarrow> date_le b c \<Longrightarrow> date_le a c"
  by (auto simp: date_le_def)

lemma set_insert_desc: "set (insert_desc f x xs) = insert x (set xs)"
  by (induction xs) auto

lemma mset_insert_desc: "mset (insert_desc f x xs) = add_mset x (mset xs)"
  by (induction xs) auto

lemma sorted_insert_desc:
  "sorted_wrt (\<lambda>a b. date_le (f b) (f a)) xs \<Longrightarrow>
   sorted_wrt (\<lambda>a b. date_le (f b) (f a)) (insert_desc f x xs)"
proof (induction xs)
  case Nil
  then show ?case by simp
next
  case (Cons y ys)
  show ?case
  proof (cases "date_le (f y) (f x)")
    case True
    have "\<forall>z \<in> set ys. date_le (f z) (f x)"
      using Cons.prems True by (auto intro: date_le_trans)
    then show ?thesis using Cons.prems True by simp
  next
    case False
    then have "date_le (f x) (f y)" using date_le_total by blast
    then show ?thesis using Cons False by (auto simp: set_insert_desc)
  qed
qed

lemma mset_order_by_date_desc: "mset (order_by_date_desc f xs) = mset xs"
  by (induction xs) (simp_all add: order_by_date_desc_def mset_insert_desc)

lemma set_order_by_date_desc: "set (order_by_date_desc f xs) = set xs"
  using mset_order_by_date_desc [of f xs] by (metis set_mset_mset)

lemma length_order_by_date_desc: "length (order_by_date_desc f xs) = length xs"
  using mset_order_by_date_desc [of f xs] by (metis size_mset)

lemma sorted_order_by_date_desc:
  "sorted_wrt (\<lambda>a b. date_le (f b) (f a)) (order_by_date_desc f xs)"
proof (induction xs)
  case Nil
  then show ?case by (simp add: order_by_date_desc_def)
next
  case (Cons x xs)
  then show ?case
    using sorted_insert_desc [of f "order_by_date_desc f xs" x]
    by (simp add: order_by_date_desc_def)
qed

section \<open>Attendance of one employee\<close>

text \<open>
  C5. For an unknown employee the listing fails with \<open>EmployeeNotFoundError\<close>. For a
  stored employee it returns exactly the attendance rows with that employee id (as a
  multiset; the empty list when there are none), and of any two returned rows the
  earlier position holds the later or equal date.
\<close>

theorem get_attendance_by_employee_sorted:
  "(query_employee db k = None \<longrightarrow> get_attendance_by_employee db k = Inl EmployeeNotFoundError) \<and>
   (query_employee db k \<noteq> None \<longrightarrow>
      (\<exists>rows. get_attendance_by_employee db k = Inr rows \<and>
         mset rows = mset (filter (\<lambda>a. att_employee_id a = k) (attendance db)) \<and>
         (filter (\<lambda>a. att_employee_id a = k) (attendance db) = [] \<longrightarrow> rows = []) \<and>
         (\<forall>i j. i < j \<and> j < length rows \<longrightarrow>
            date_le (att_date (rows ! j)) (att_date (rows ! i)))))"
proof (intro conjI impI)
  assume "query_employee db k = None"
  then show "get_attendance_by_employee db k = Inl EmployeeNotFoundError"
    by (simp add: get_attendance_by_employee_def)
next
  assume "query_employee db k \<noteq> None"
  then obtain e where e: "query_employee db k = Some e" by blast
  let ?sel = "filter (\<lambda>a. att_employee_id a = k) (attendance db)"
  let ?rows = "order_by_date_desc att_date ?sel"
  have r: "get_attendance_by_employee db k = Inr ?rows"
    using e by (simp add: get_attendance_by_employee_def)
  have m: "mset ?rows = mset ?sel" by (rule mset_order_by_date_desc)
  have z: "?sel = [] \<longrightarrow> ?rows = []" by (simp add: order_by_date_desc_def)
  have s: "\<forall>i j. i < j \<and> j < length ?rows \<longrightarrow>
            date_le (att_date (?rows ! j)) (att_date (?rows ! i))"
    using sorted_order_by_date_desc [of att_date ?sel]
    by (simp add: sorted_wrt_iff_nth_less)
  from r m z s show "\<exists>rows. get_attendance_by_employee db k = Inr rows \<and>
         mset rows = mset ?sel \<and> (?sel = [] \<longrightarrow> rows = []) \<and>
         (\<forall>i j. i < j \<and> j < length rows \<longrightarrow>
            date_le (att_date (rows ! j)) (att_date (rows ! i)))"
    by blast
qed

lemma three_dates_listing:
  "get_attendance_by_employee three_dates_store ''E1'' =
     Inr [\<lparr>att_id = 2, att_employee_id = ''E1'', att_date = \<lparr>year = 2024, month = 3, day = 1\<rparr>,
           att_status = Absent\<rparr>,
          \<lparr>att_id = 3, att_employee_id = ''E1'', att_date = \<lparr>year = 2024, month = 2, day = 1\<rparr>,
           att_status = Present\<rparr>,
          \<lparr>att_id = 1, att_employee_id = ''E1'', att_date = \<lparr>year = 2024, month = 1, day = 1\<rparr>,
           att_status = Present\<rparr>]"
  by (simp add: get_attendance_by_employee_def three_dates_store_def query_employee_def
      order_by_date_desc_def date_le_def)

theorem get_attendance_by_employee_sorted_witness:
  "query_employee three_dates_store ''E9'' = None \<and>
   get_attendance_by_employee three_dates_store ''E9'' = Inl EmployeeNotFoundError \<and>
   query_employee three_dates_store ''E1'' \<noteq> None \<and>
   query_employee three_dates_store ''E2'' \<noteq> None \<and>
   get_attendance_by_employee three_dates_store ''E2'' = Inr [] \<and>
   (\<exists>rows. get_attendance_by_employee three_dates_store ''E1'' = Inr rows \<and>
      map att_id rows = [2, 3, 1] \<and>
      mset rows = mset (filter (\<lambda>a. att_employee_id a = ''E1'') (attendance three_dates_store)) \<and>
      (\<forall>i j. i < j \<and> j < length rows \<longrightarrow>
         date_le (att_date (rows ! j)) (att_date (rows ! i))))"
proof -
  have q9: "query_employee three_dates_store ''E9'' = None"
    by (simp add: query_employee_def three_dates_store_def)
  have q1: "query_employee three_dates_store ''E1'' \<noteq> None"
    by (simp add: query_employee_def three_dates_store_def)
  have q2: "query_employee three_dates_store ''E2'' \<noteq> None"
    by (simp add: query_employee_def three_dates_store_def)
  have f2: "filter (\<lambda>a. att_employee_id a = ''E2'') (attendance three_dates_store) = []"
    by (simp add: three_dates_store_def)
  have a: "get_attendance_by_employee three_dates_store ''E9'' = Inl EmployeeNotFoundError"
    using q9 get_attendance_by_employee_sorted [of three_dates_store "''E9''"] by blast
  have b: "get_attendance_by_employee three_dates_store ''E2'' = Inr []"
    using q2 f2 get_attendance_by_employee_sorted [of three_dates_store "''E2''"] by auto
  have c: "\<exists>rows. get_attendance_by_employee three_dates_store ''E1'' = Inr rows \<and>
      map att_id rows = [2, 3, 1] \<and>
      mset rows = mset (filter (\<lambda>a. att_employee_id a = ''E1'') (attendance three_dates_store)) \<and>
      (\<forall>i j. i < j \<and> j < length rows \<longrightarrow>
         date_le (att_date (rows ! j)) (att_date (rows ! i)))"
    using q1 get_attendance_by_employee_sorted [of three_dates_store "''E1''"]
    by (auto simp: three_dates_listing)
  show ?thesis using q9 a q1 q2 b c by (intro conjI)
qed

section \<open>Invariants of the reachable stores\<close>

lemma referential_integrity_create_employee:
  "referential_integrity db \<Longrightarrow> referential_integrity (fst (create_employee db e))"
  by (cases "query_employee db (ec_employee_id e)")
     (auto simp: create_employee_fresh create_employee_existing referential_integrity_def)

lemma referential_integrity_delete_employee:
  "referential_integrity db \<Longrightarrow> referential_integrity (fst (delete_employee db k))"
proof (cases "query_employee db k")
  case None
  assume "referential_integrity db"
  then show ?thesis using None by (simp add: delete_employee_def)
next
  case (Some e)
  assume ri: "referential_integrity db"
  have k: "employee_id e = k" using Some by (simp add: query_employee_Some)
  show ?thesis
    using ri by (force simp: delete_employee_def Some delete_cascade_def k referential_integrity_def)
qed

lemma referential_integrity_create_attendance:
  "referential_integrity db \<Longrightarrow> referential_integrity (fst (create_attendance db a))"
proof (cases "query_employee db (ac_employee_id a)")
  case None
  assume "referential_integrity db"
  then show ?thesis using None by (simp add: create_attendance_not_found)
next
  case (Some e)
  assume ri: "referential_integrity db"
  have "ac_employee_id a \<in> set (map employee_id (employees db))"
    using query_employee_Some [OF Some] by force
  then show ?thesis
    using ri by (auto simp: create_attendance_found [OF Some] referential_integrity_def)
qed

lemma reachable_referential_integrity: "reachable db \<Longrightarrow> referential_integrity db"
proof (induction rule: reachable.induct)
  case reachable_init
  show ?case by (simp add: referential_integrity_def init_db_def)
next
  case (reachable_create_employee db employee)
  then show ?case by (simp add: referential_integrity_create_employee)
next
  case (reachable_delete_employee db k)
  then show ?case by (simp add: referential_integrity_delete_employee)
next
  case (reachable_create_attendance db attendance_in)
  then show ?case by (simp add: referential_integrity_create_attendance)
qed

lemma reachable_employee_ids_unique: "reachable db \<Longrightarrow> employee_ids_unique db"
proof (induction rule: reachable.induct)
  case reachable_init
  show ?case by (simp add: employee_ids_unique_def init_db_def)
next
  case (reachable_create_employee db employee)
  then show ?case
    by (cases "query_employee db (ec_employee_id employee)")
       (auto simp: create_employee_fresh create_employee_existing employee_ids_unique_def
          query_employee_None Employee_of_def)
next
  case (reachable_delete_employee db k)
  then show ?case
    by (cases "query_employee db k")
       (auto simp: delete_employee_def delete_cascade_def employee_ids_unique_def distinct_map_filter)
next
  case (reachable_create_attendance db attendance_in)
  then show ?case
    by (cases "query_employee db (ac_employee_id attendance_in)")
       (auto simp: create_attendance_found create_attendance_not_found employee_ids_unique_def)
qed

lemma reachable_attendance_ids_fresh: "reachable db \<Longrightarrow> attendance_ids_fresh db"
proof (induction rule: reachable.induct)
  case reachable_init
  show ?case by (simp add: attendance_ids_fresh_def init_db_def)
next
  case (reachable_create_employee db employee)
  then show ?case
    by (cases "query_employee db (ec_employee_id employee)")
       (auto simp: create_employee_fresh create_employee_existing attendance_ids_fresh_def)
next
  case (reachable_delete_employee db k)
  then show ?case
    by (cases "query_employee db k")
       (auto simp: delete_employee_def delete_cascade_def attendance_ids_fresh_def distinct_map_filter)
next
  case (reachable_create_attendance db attendance_in)
  then show ?case
    by (cases "query_employee db (ac_employee_id attendance_in)")
       (auto simp: create_attendance_found create_attendance_not_found attendance_ids_fresh_def)
qed

text \<open>
  C2. In every store that the operations of crud.py produce from the empty tables,
  the employee id of each attendance row is the id of a stored employee. Creating
  attendance for an id that names no stored employee fails with
  \<open>EmployeeNotFoundError\<close> and returns the store unchanged; the endpoint answers
  \<open>HTTP_404_NOT_FOUND\<close> for a valid request of that kind, again with the store
  unchanged.
\<close>

theorem referential_integrity_invariant:
  "(reachable db \<longrightarrow>
      (\<forall>a \<in> set (attendance db). \<exists>e \<in> set (employees db). employee_id e = att_employee_id a)) \<and>
   (query_employee db (ac_employee_id attendance_in) = None \<longrightarrow>
      create_attendance db attendance_in = (db, Inl EmployeeNotFoundError)) \<and>
   (AttendanceCreate_validate rq = Inr attendance_in \<and>
    query_employee db (ac_employee_id attendance_in) = None \<longrightarrow>
      create_attendance_endpoint db rq = (db, Inl HTTP_404_NOT_FOUND))"
proof (intro conjI impI)
  assume "reachable db"
  then have "referential_integrity db" by (rule reachable_referential_integrity)
  then show "\<forall>a \<in> set (attendance db). \<exists>e \<in> set (employees db). employee_id e = att_employee_id a"
    by (force simp: referential_integrity_def)
next
  assume "query_employee db (ac_employee_id attendance_in) = None"
  then show "create_attendance db attendance_in = (db, Inl EmployeeNotFoundError)"
    by (rule create_attendance_not_found)
next
  assume "AttendanceCreate_validate rq = Inr attendance_in \<and>
    query_employee db (ac_employee_id attendance_in) = None"
  then show "create_attendance_endpoint db rq = (db, Inl HTTP_404_NOT_FOUND)"
    by (simp add: create_attendance_endpoint_cases)
qed

lemma reached_store_value:
  "reached_store =
     \<lparr>employees = [\<lparr>employee_id = ''E1'', name = ''Ann'', email = ''ann@co.com'', department = ''Eng''\<rparr>],
      attendance = [\<lparr>att_id = 1, att_employee_id = ''E1'',
                     att_date = \<lparr>year = 2024, month = 1, day = 1\<rparr>, att_status = Present\<rparr>],
      next_id = 2\<rparr>"
  by (simp add: reached_store_def create_attendance_def create_employee_def
      create_employee_interleaved_def add_employee_def add_attendance_def query_employee_def
      init_db_def ann_def ann_jan_1_def Employee_of_def Let_def)

theorem referential_integrity_invariant_witness:
  "reachable reached_store \<and>
   map att_employee_id (attendance reached_store) = [''E1''] \<and>
   (\<exists>e \<in> set (employees reached_store).
      employee_id e = att_employee_id (attendance reached_store ! 0)) \<and>
   query_employee reached_store (ac_employee_id e9_jan_1) = None \<and>
   create_attendance reached_store e9_jan_1 = (reached_store, Inl EmployeeNotFoundError) \<and>
   AttendanceCreate_validate e9_request = Inr e9_jan_1 \<and>
   create_attendance_endpoint reached_store e9_request = (reached_store, Inl HTTP_404_NOT_FOUND)"
proof -
  have r: "reachable reached_store"
    unfolding reached_store_def
    by (intro reachable_create_attendance reachable_create_employee reachable_init)
  have m: "map att_employee_id (attendance reached_store) = [''E1'']"
    by (simp add: reached_store_value)
  have q: "query_employee reached_store (ac_employee_id e9_jan_1) = None"
    by (simp add: reached_store_value query_employee_def e9_jan_1_def)
  have v: "AttendanceCreate_validate e9_request = Inr e9_jan_1"
    by (simp add: AttendanceCreate_validate_def e9_request_def e9_jan_1_def
        Field_min_length_1_def date_field_def status_field_def)
  note t = referential_integrity_invariant [of reached_store e9_jan_1 e9_request]
  have "attendance reached_store ! 0 \<in> set (attendance reached_store)"
    by (simp add: reached_store_value)
  then have a: "\<exists>e \<in> set (employees reached_store).
      employee_id e = att_employee_id (attendance reached_store ! 0)"
    using t r by blast
  have b: "create_attendance reached_store e9_jan_1 = (reached_store, Inl EmployeeNotFoundError)"
    using t q by blast
  have c: "create_attendance_endpoint reached_store e9_request =
      (reached_store, Inl HTTP_404_NOT_FOUND)"
    using t q v by blast
  show ?thesis using r m a q b v c by (intro conjI)
qed

section \<open>The dashboard\<close>

lemma sum_count_by_key:
  "finite D \<Longrightarrow> f ` set es \<subseteq> D \<Longrightarrow>
   (\<Sum>d \<in> D. length (filter (\<lambda>e. f e = d) es)) = length es"
proof (induction es)
  case Nil
  then show ?case by simp
next
  case (Cons x xs)
  have fx: "f x \<in> D" using Cons.prems(2) by simp
  have "(\<Sum>d \<in> D. length (filter (\<lambda>e. f e = d) (x # xs))) =
        (\<Sum>d \<in> D. (if f x = d then 1 else 0) + length (filter (\<lambda>e. f e = d) xs))"
    by (intro sum.cong) auto
  also have "\<dots> = (\<Sum>d \<in> D. (if f x = d then 1 else 0)) + (\<Sum>d \<in> D. length (filter (\<lambda>e. f e = d) xs))"
    by (simp add: sum.distrib)
  also have "(\<Sum>d \<in> D. (if f x = d then 1 else 0 :: nat)) = 1"
    using Cons.prems(1) fx by simp
  also have "(\<Sum>d \<in> D. length (filter (\<lambda>e. f e = d) xs)) = length xs"
    using Cons by simp
  finally show ?case by simp
qed

lemma dept_distribution_sum:
  "sum_list (map snd (dept_distribution db)) = length (employees db)"
proof -
  let ?ds = "remdups (map department (employees db))"
  have "sum_list (map snd (dept_distribution db)) =
        sum_list (map (\<lambda>d. length (filter (\<lambda>e. department e = d) (employees db))) ?ds)"
    by (simp add: dept_distribution_def comp_def)
  also have "\<dots> = (\<Sum>d \<in> set ?ds. length (filter (\<lambda>e. department e = d) (employees db)))"
    by (rule sum_list_distinct_conv_sum_set) simp
  also have "\<dots> = length (employees db)"
    by (rule sum_count_by_key) auto
  finally show ?thesis .
qed

lemma dept_distribution_names:
  "map fst (dept_distribution db) = remdups (map department (employees db))"
  by (simp add: dept_distribution_def comp_def)

lemma today_counts_bound:
  "length (filter (\<lambda>a. att_date a = today \<and> att_status a = Present) xs) +
   length (filter (\<lambda>a. att_date a = today \<and> att_status a = Absent) xs) \<le> length xs"
  by (induction xs) auto

lemma join_Employee_member:
  "(a, e) \<in> set (join_Employee db) \<longleftrightarrow>
     a \<in> set (attendance db) \<and> e \<in> set (employees db) \<and> employee_id e = att_employee_id a"
  by (auto simp: join_Employee_def)

lemma recent_attendance_query_member:
  assumes "r \<in> set (recent_attendance_query db)"
  shows "r \<in> set (attendance db) \<and> query_employee db (att_employee_id r) \<noteq> None"
proof -
  from assms obtain p where p: "p \<in> set (take 5 (order_by_date_desc (\<lambda>p. att_date (fst p)) (join_Employee db)))"
    and r: "r = fst p"
    by (auto simp: recent_attendance_query_def)
  from p have "p \<in> set (join_Employee db)"
    using set_order_by_date_desc [of "\<lambda>p. att_date (fst p)" "join_Employee db"]
    by (auto dest: in_set_takeD)
  then have "(r, snd p) \<in> set (join_Employee db)" using r by simp
  then have "r \<in> set (attendance db)" and "att_employee_id r \<in> set (map employee_id (employees db))"
    by (force simp: join_Employee_member)+
  then show ?thesis by (simp add: query_employee_None)
qed

lemma recent_attendance_query_length: "length (recent_attendance_query db) \<le> 5"
  by (simp add: recent_attendance_query_def)

lemma recent_attendance_query_sorted:
  "sorted_wrt (\<lambda>a b. date_le (att_date b) (att_date a)) (recent_attendance_query db)"
proof -
  let ?js = "order_by_date_desc (\<lambda>p. att_date (fst p)) (join_Employee db)"
  have "sorted_wrt (\<lambda>p q. date_le (att_date (fst q)) (att_date (fst p))) ?js"
    by (rule sorted_order_by_date_desc)
  then have "sorted_wrt (\<lambda>p q. date_le (att_date (fst q)) (att_date (fst p))) (take 5 ?js)"
    by (rule sorted_wrt_take)
  then show ?thesis
    by (simp add: recent_attendance_query_def sorted_wrt_map)
qed

lemma recent_entries_total:
  "\<forall>r \<in> set rows. query_employee db (att_employee_id r) \<noteq> None \<Longrightarrow>
   \<exists>es. recent_entries db rows = Some es \<and> length es = length rows \<and>
        (\<forall>i < length rows. recent_entry db (rows ! i) = Some (es ! i))"
proof (induction rows)
  case Nil
  then show ?case by simp
next
  case (Cons r rows)
  then obtain es where es: "recent_entries db rows = Some es" "length es = length rows"
    "\<forall>i < length rows. recent_entry db (rows ! i) = Some (es ! i)"
    by auto
  from Cons.prems obtain e where e: "query_employee db (att_employee_id r) = Some e" by auto
  then obtain x where x: "recent_entry db r = Some x" by (simp add: recent_entry_def)
  have "recent_entries db (r # rows) = Some (x # es)" by (simp add: x es)
  moreover have "\<forall>i < length (r # rows). recent_entry db ((r # rows) ! i) = Some ((x # es) ! i)"
    using x es(3) by (auto simp: nth_Cons split: nat.splits)
  ultimately show ?case using es(2) by auto
qed

text \<open>
  C10. In every store the dashboard is computed, and its figures agree: the department
  list has one entry for each department value held by a stored employee and no other,
  each with the number of employees of that department; the counts add up to
  \<open>total_employees\<close>; \<open>present_today\<close> and \<open>absent_today\<close> together do not exceed
  \<open>total_attendance\<close>. The recent list renders the rows of the recent-attendance
  query one by one: at most five stored attendance rows, from later to earlier date,
  each with the name of the stored employee that its employee id names.
\<close>

theorem dashboard_consistent:
  "\<exists>s. get_dashboard_stats today db = Inr s \<and>
     total_employees s = length (employees db) \<and>
     total_attendance s = length (attendance db) \<and>
     distinct (map fst (departments s)) \<and>
     set (map fst (departments s)) = department ` set (employees db) \<and>
     (\<forall>p \<in> set (departments s).
        snd p = length (filter (\<lambda>e. department e = fst p) (employees db))) \<and>
     sum_list (map snd (departments s)) = total_employees s \<and>
     present_today s + absent_today s \<le> total_attendance s \<and>
     length (recent_attendance s) \<le> 5 \<and>
     length (recent_attendance s) = length (recent_attendance_query db) \<and>
     (\<forall>i j. i < j \<and> j < length (recent_attendance_query db) \<longrightarrow>
        date_le (att_date (recent_attendance_query db ! j))
                (att_date (recent_attendance_query db ! i))) \<and>
     (\<forall>i < length (recent_attendance_query db).
        recent_attendance_query db ! i \<in> set (attendance db) \<and>
        (\<exists>e \<in> set (employees db).
           employee_id e = att_employee_id (recent_attendance_query db ! i) \<and>
           query_employee db (att_employee_id (recent_attendance_query db ! i)) = Some e \<and>
           recent_attendance s ! i =
             \<lparr>ra_employee_id = att_employee_id (recent_attendance_query db ! i),
              ra_employee_name = name e,
              ra_date = str_date (att_date (recent_attendance_query db ! i)),
              ra_status = status_value (att_status (recent_attendance_query db ! i))\<rparr>))"
proof -
  let ?rows = "recent_attendance_query db"
  have all: "\<forall>r \<in> set ?rows. query_employee db (att_employee_id r) \<noteq> None"
    using recent_attendance_query_member by blast
  from recent_entries_total [OF all]
  obtain es where es: "recent_entries db ?rows = Some es" "length es = length ?rows"
    "\<forall>i < length ?rows. recent_entry db (?rows ! i) = Some (es ! i)"
    by blast
  let ?s = "\<lparr>total_employees = length (employees db), total_attendance = length (attendance db),
             present_today = length (filter (\<lambda>a. att_date a = today \<and> att_status a = Present) (attendance db)),
             absent_today = length (filter (\<lambda>a. att_date a = today \<and> att_status a = Absent) (attendance db)),
             departments = dept_distribution db, recent_attendance = es\<rparr>"
  have s: "get_dashboard_stats today db = Inr ?s"
    by (simp add: get_dashboard_stats_def es(1) Let_def)
  have d1: "distinct (map fst (departments ?s))"
    by (simp add: dept_distribution_names)
  have d2: "set (map fst (departments ?s)) = department ` set (employees db)"
    by (simp add: dept_distribution_names)
  have d3: "\<forall>p \<in> set (departments ?s).
        snd p = length (filter (\<lambda>e. department e = fst p) (employees db))"
    by (auto simp: dept_distribution_def)
  have d4: "sum_list (map snd (departments ?s)) = total_employees ?s"
    by (simp add: dept_distribution_sum)
  have t: "present_today ?s + absent_today ?s \<le> total_attendance ?s"
    by (simp add: today_counts_bound)
  have l: "length (recent_attendance ?s) \<le> 5" "length (recent_attendance ?s) = length ?rows"
    using recent_attendance_query_length [of db] by (simp_all add: es(2))
  have o: "\<forall>i j. i < j \<and> j < length ?rows \<longrightarrow>
        date_le (att_date (?rows ! j)) (att_date (?rows ! i))"
    using recent_attendance_query_sorted [of db] by (simp add: sorted_wrt_iff_nth_less)
  have j: "\<forall>i < length ?rows.
        ?rows ! i \<in> set (attendance db) \<and>
        (\<exists>e \<in> set (employees db).
           employee_id e = att_employee_id (?rows ! i) \<and>
           query_employee db (att_employee_id (?rows ! i)) = Some e \<and>
           recent_attendance ?s ! i =
             \<lparr>ra_employee_id = att_employee_id (?rows ! i), ra_employee_name = name e,
              ra_date = str_date (att_date (?rows ! i)),
              ra_status = status_value (att_status (?rows ! i))\<rparr>)"
  proof (intro allI impI)
    fix i assume i: "i < length ?rows"
    then have mem: "?rows ! i \<in> set ?rows" by simp
    then have a: "?rows ! i \<in> set (attendance db)"
      and "query_employee db (att_employee_id (?rows ! i)) \<noteq> None"
      using recent_attendance_query_member [of "?rows ! i" db] by simp_all
    then obtain e where e: "query_employee db (att_employee_id (?rows ! i)) = Some e" by blast
    have ein: "e \<in> set (employees db)" "employee_id e = att_employee_id (?rows ! i)"
      using query_employee_Some [OF e] by simp_all
    have "recent_entry db (?rows ! i) = Some (es ! i)" using es(3) i by simp
    then have "es ! i =
             \<lparr>ra_employee_id = att_employee_id (?rows ! i), ra_employee_name = name e,
              ra_date = str_date (att_date (?rows ! i)),
              ra_status = status_value (att_status (?rows ! i))\<rparr>"
      by (simp add: recent_entry_def e)
    then show "?rows ! i \<in> set (attendance db) \<and>
        (\<exists>e \<in> set (employees db).
           employee_id e = att_employee_id (?rows ! i) \<and>
           query_employee db (att_employee_id (?rows ! i)) = Some e \<and>
           recent_attendance ?s ! i =
             \<lparr>ra_employee_id = att_employee_id (?rows ! i), ra_employee_name = name e,
              ra_date = str_date (att_date (?rows ! i)),
              ra_status = status_value (att_status (?rows ! i))\<rparr>)"
      using a e ein by auto
  qed
  have "get_dashboard_stats today db = Inr ?s \<and>
     total_employees ?s = length (employees db) \<and>
     total_attendance ?s = length (attendance db) \<and>
     distinct (map fst (departments ?s)) \<and>
     set (map fst (departments ?s)) = department ` set (employees db) \<and>
     (\<forall>p \<in> set (departments ?s).
        snd p = length (filter (\<lambda>e. department e = fst p) (employees db))) \<and>
     sum_list (map snd (departments ?s)) = total_employees ?s \<and>
     present_today ?s + absent_today ?s \<le> total_attendance ?s \<and>
     length (recent_attendance ?s) \<le> 5 \<and>
     length (recent_attendance ?s) = length ?rows \<and>
     (\<forall>i j. i < j \<and> j < length ?rows \<longrightarrow>
        date_le (att_date (?rows ! j)) (att_date (?rows ! i))) \<and>
     (\<forall>i < length ?rows.
        ?rows ! i \<in> set (attendance db) \<and>
        (\<exists>e \<in> set (employees db).
           employee_id e = att_employee_id (?rows ! i) \<and>
           query_employee db (att_employee_id (?rows ! i)) = Some e \<and>
           recent_attendance ?s ! i =
             \<lparr>ra_employee_id = att_employee_id (?rows ! i), ra_employee_name = name e,
              ra_date = str_date (att_date (?rows ! i)),
              ra_status = status_value (att_status (?rows ! i))\<rparr>))"
    using s d1 d2 d3 d4 t l o j by (intro conjI) simp_all
  then show ?thesis by (rule exI [of _ ?s])
qed

lemma six_rows_dashboard: "get_dashboard_stats march_1 six_rows_store = Inr six_rows_stats"
  by code_simp

lemma six_rows_query: "map att_id (recent_attendance_query six_rows_store) = [3, 4, 6, 5, 2]"
  by code_simp

theorem dashboard_consistent_witness:
  "get_dashboard_stats march_1 six_rows_store = Inr six_rows_stats \<and>
   distinct (map fst (departments six_rows_stats)) \<and>
   set (map fst (departments six_rows_stats)) = department ` set (employees six_rows_store) \<and>
   sum_list (map snd (departments six_rows_stats)) = total_employees six_rows_stats \<and>
   present_today six_rows_stats + absent_today six_rows_stats \<le> total_attendance six_rows_stats \<and>
   length (recent_attendance six_rows_stats) \<le> 5 \<and>
   (0::nat) < 1 \<and> 1 < length (recent_attendance_query six_rows_store) \<and>
   date_le (att_date (recent_attendance_query six_rows_store ! 1))
           (att_date (recent_attendance_query six_rows_store ! 0)) \<and>
   recent_attendance_query six_rows_store ! 4 \<in> set (attendance six_rows_store) \<and>
   (\<exists>e \<in> set (employees six_rows_store).
      employee_id e = ''E2'' \<and> ra_employee_name (recent_attendance six_rows_stats ! 4) = name e)"
proof -
  from dashboard_consistent [of march_1 six_rows_store]
  obtain s where s: "get_dashboard_stats march_1 six_rows_store = Inr s"
    and d1: "distinct (map fst (departments s))"
    and d2: "set (map fst (departments s)) = department ` set (employees six_rows_store)"
    and d4: "sum_list (map snd (departments s)) = total_employees s"
    and t: "present_today s + absent_today s \<le> total_attendance s"
    and l: "length (recent_attendance s) \<le> 5"
    and o: "\<forall>i j. i < j \<and> j < length (recent_attendance_query six_rows_store) \<longrightarrow>
        date_le (att_date (recent_attendance_query six_rows_store ! j))
                (att_date (recent_attendance_query six_rows_store ! i))"
    and j: "\<forall>i < length (recent_attendance_query six_rows_store).
        recent_attendance_query six_rows_store ! i \<in> set (attendance six_rows_store) \<and>
        (\<exists>e \<in> set (employees six_rows_store).
           employee_id e = att_employee_id (recent_attendance_query six_rows_store ! i) \<and>
           query_employee six_rows_store
             (att_employee_id (recent_attendance_query six_rows_store ! i)) = Some e \<and>
           recent_attendance s ! i =
             \<lparr>ra_employee_id = att_employee_id (recent_attendance_query six_rows_store ! i),
              ra_employee_name = name e,
              ra_date = str_date (att_date (recent_attendance_query six_rows_store ! i)),
              ra_status = status_value (att_status (recent_attendance_query six_rows_store ! i))\<rparr>)"
    by blast
  have eq: "s = six_rows_stats" using s by (simp add: six_rows_dashboard)
  have len: "length (recent_attendance_query six_rows_store) = 5"
    using arg_cong [OF six_rows_query, of length] by simp
  have e2: "att_employee_id (recent_attendance_query six_rows_store ! 4) = ''E2''"
    by code_simp
  have o1: "date_le (att_date (recent_attendance_query six_rows_store ! 1))
           (att_date (recent_attendance_query six_rows_store ! 0))"
    using o len by simp
  have "4 < length (recent_attendance_query six_rows_store)" using len by simp
  with j have j4': "recent_attendance_query six_rows_store ! 4 \<in> set (attendance six_rows_store) \<and>
        (\<exists>e \<in> set (employees six_rows_store).
           employee_id e = att_employee_id (recent_attendance_query six_rows_store ! 4) \<and>
           query_employee six_rows_store
             (att_employee_id (recent_attendance_query six_rows_store ! 4)) = Some e \<and>
           recent_attendance s ! 4 =
             \<lparr>ra_employee_id = att_employee_id (recent_attendance_query six_rows_store ! 4),
              ra_employee_name = name e,
              ra_date = str_date (att_date (recent_attendance_query six_rows_store ! 4)),
              ra_status = status_value (att_status (recent_attendance_query six_rows_store ! 4))\<rparr>)"
    by blast
  then obtain e where e: "e \<in> set (employees six_rows_store)"
      "employee_id e = att_employee_id (recent_attendance_query six_rows_store ! 4)"
      "recent_attendance s ! 4 =
             \<lparr>ra_employee_id = att_employee_id (recent_attendance_query six_rows_store ! 4),
              ra_employee_name = name e,
              ra_date = str_date (att_date (recent_attendance_query six_rows_store ! 4)),
              ra_status = status_value (att_status (recent_attendance_query six_rows_store ! 4))\<rparr>"
    by blast
  have "ra_employee_name (recent_attendance s ! 4) = name e" by (simp add: e(3))
  then have "employee_id e = ''E2'' \<and> ra_employee_name (recent_attendance six_rows_stats ! 4) = name e"
    using e(2) e2 eq by simp
  with e(1) j4' have j4: "recent_attendance_query six_rows_store ! 4 \<in> set (attendance six_rows_store) \<and>
      (\<exists>e \<in> set (employees six_rows_store).
        employee_id e = ''E2'' \<and> ra_employee_name (recent_attendance six_rows_stats ! 4) = name e)"
    by blast
  show ?thesis
    using six_rows_dashboard d1 d2 d4 t l o1 j4 len unfolding eq by (intro conjI) simp_all
qed

section \<open>What the matcher accepts\<close>













section \<open>The character classes of the pattern\<close>












section \<open>Validation of an employee request\<close>






section \<open>The pattern and the validator\<close>


lemma spec_email_pattern_last:
  assumes "spec_email_pattern v"
  shows "v \<noteq> [] \<and> spec_alpha (last v)"
proof -
  from assms obtain l dm t where v: "v = l @ ''@'' @ dm @ ''.'' @ t"
    and t: "2 \<le> length t" "\<forall>c \<in> set t. spec_alpha c"
    unfolding spec_email_pattern_def by blast
  from t(1) have ne: "t \<noteq> []" by auto
  then have "last v = last t" using v by simp
  moreover have "last t \<in> set t" using ne by simp
  ultimately show ?thesis using t(2) v by auto
qed











lemma empty_not_spec: "\<not> spec_email_pattern []"
  using spec_email_pattern_last by blast



section \<open>Round trip through validation\<close>






section \<open>What validation rejects\<close>




end
